theory Spec2Isabelle
  imports Main
begin

section \<open>Go values used by pkg/cloud/vsphere/provisioner/govmomi/utils.go\<close>

subsection \<open>Time\<close>

text \<open>
  A \<open>time.Duration\<close> is an int64 count of nanoseconds; a \<open>time.Time\<close> is an instant
  (nanoseconds since the epoch, far inside the range Go can represent) together with the
  location it is displayed in. \<open>Time.Sub\<close> saturates at the two ends of int64.
\<close>

type_synonym Duration = int

datatype Location = UTC | Local

record Time =
  nanos :: int
  loc :: Location

definition maxDuration :: Duration where
  "maxDuration = 2 ^ 63 - 1"

definition minDuration :: Duration where
  "minDuration = - (2 ^ 63)"

definition time_Sub :: "Time \<Rightarrow> Time \<Rightarrow> Duration" where
  "time_Sub t u =
     (let d = nanos t - nanos u in
      if maxDuration < d then maxDuration
      else if d < minDuration then minDuration
      else d)"

definition time_Add :: "Time \<Rightarrow> Duration \<Rightarrow> Time" where
  "time_Add t d = t\<lparr>nanos := nanos t + d\<rparr>"

definition time_UTC :: "Time \<Rightarrow> Time" where
  "time_UTC t = t\<lparr>loc := UTC\<rparr>"

subsection \<open>API objects\<close>

text \<open>A Go map that may be nil is an optional finite map: \<open>None\<close> is the nil map.\<close>

record ObjectMeta =
  Name :: string
  Namespace :: string
  UID :: string
  Annotations :: "(string \<rightharpoonup> string) option"

record ClusterStatus =
  cs_ErrorReason :: string
  cs_ErrorMessage :: string

record Cluster =
  cluster_ObjectMeta :: ObjectMeta
  cluster_Status :: ClusterStatus

text \<open>The machine status holds pointers to the reason and the message.\<close>

record MachineStatus =
  ms_ErrorReason :: "string option"
  ms_ErrorMessage :: "string option"

record Machine =
  machine_ObjectMeta :: ObjectMeta
  machine_Status :: MachineStatus

record Secret =
  secret_ObjectMeta :: ObjectMeta
  secret_Type :: string
  secret_Data :: "string \<rightharpoonup> string"

record MachineError =
  me_Reason :: string
  me_Message :: string

record ClusterError =
  ce_Reason :: string
  ce_Message :: string

record RestConfig =
  Host :: string
  UserAgent :: string

subsection \<open>Errors\<close>

text \<open>
  A Go \<open>error\<close> is one of: a plain message (\<open>errors.New\<close>, \<open>fmt.Errorf\<close>), an API
  status error with its reason and message, or one of the two cluster-api error structs.
  The nil error is \<open>None\<close> of \<open>error option\<close>.
\<close>

datatype error =
    errorString string
  | StatusError string string
  | MachineErr MachineError
  | ClusterErr ClusterError

fun Error :: "error \<Rightarrow> string" where
  "Error (errorString s) = s"
| "Error (StatusError reason message) = message"
| "Error (MachineErr e) = me_Message e"
| "Error (ClusterErr e) = ce_Message e"

text \<open>The verb \<open>%s\<close> applied to an error value; a nil error prints as \<open>%!s(<nil>)\<close>.\<close>

definition fmt_s :: "error option \<Rightarrow> string" where
  "fmt_s err = (case err of None \<Rightarrow> ''%!s(<nil>)'' | Some e \<Rightarrow> Error e)"

definition StatusReasonAlreadyExists :: string where
  "StatusReasonAlreadyExists = ''AlreadyExists''"

definition StatusReasonNotFound :: string where
  "StatusReasonNotFound = ''NotFound''"

fun IsAlreadyExists :: "error \<Rightarrow> bool" where
  "IsAlreadyExists (StatusError reason message) = (reason = StatusReasonAlreadyExists)"
| "IsAlreadyExists _ = False"

subsection \<open>Constants of the Kubernetes libraries\<close>

definition NamespaceSystem :: string where
  "NamespaceSystem = ''kube-system''"

definition EventTypeWarning :: string where
  "EventTypeWarning = ''Warning''"

definition BootstrapTokenIDBytes :: nat where
  "BootstrapTokenIDBytes = 6"

definition BootstrapTokenSecretPrefix :: string where
  "BootstrapTokenSecretPrefix = ''bootstrap-token-''"

definition SecretTypeBootstrapToken :: string where
  "SecretTypeBootstrapToken = ''bootstrap.kubernetes.io/token''"

definition BootstrapTokenIDKey :: string where
  "BootstrapTokenIDKey = ''token-id''"

definition BootstrapTokenSecretKey :: string where
  "BootstrapTokenSecretKey = ''token-secret''"

definition BootstrapTokenExpirationKey :: string where
  "BootstrapTokenExpirationKey = ''expiration''"

definition BootstrapTokenUsageAuthentication :: string where
  "BootstrapTokenUsageAuthentication = ''usage-bootstrap-authentication''"

definition BootstrapTokenUsageSigningKey :: string where
  "BootstrapTokenUsageSigningKey = ''usage-bootstrap-signing''"

definition BootstrapTokenExtraGroupsKey :: string where
  "BootstrapTokenExtraGroupsKey = ''auth-extra-groups''"

definition BootstrapTokenDescriptionKey :: string where
  "BootstrapTokenDescriptionKey = ''description''"

definition BootstrapTokenSecretName :: "string \<Rightarrow> string" where
  "BootstrapTokenSecretName tokenID = BootstrapTokenSecretPrefix @ tokenID"

definition AddUserAgent :: "RestConfig \<Rightarrow> string \<Rightarrow> RestConfig" where
  "AddUserAgent config userAgent = config\<lparr>UserAgent := userAgent\<rparr>"

section \<open>The world around the provisioner\<close>

text \<open>
  A pointer is an optional address: \<open>None\<close> is nil, \<open>Some a\<close> is the object at index
  \<open>a\<close> of the heap of its type. \<open>DeepCopy\<close> allocates at the end of the heap.
\<close>

type_synonym ptr = "nat option"

datatype ObjectRef = ClusterRef ptr | MachineRef ptr

text \<open>
  Every call that leaves the provisioner is recorded, in order, with what it was given.
  Objects are recorded by their contents at the time of the call.
\<close>

datatype call =
    is_GetControlPlaneMachines: GetControlPlaneMachines Cluster
  | is_SecretsGet: SecretsGet string string
  | is_GenerateToken: GenerateToken
  | is_SecretsCreate: SecretsCreate string string Secret
  | is_SecretsUpdate: SecretsUpdate string string Secret
  | is_ClustersUpdate: ClustersUpdate string Cluster
  | is_ClustersUpdateStatus: ClustersUpdateStatus string Cluster
  | is_MachinesUpdateStatus: MachinesUpdateStatus string Machine
  | is_Eventf: Eventf ObjectRef string string string

record world =
  clusters :: "Cluster list"
  machines :: "Machine list"
  ticks :: nat
  draws :: nat
  trace :: "call list"
  logs :: "string list"
  secrets :: "(string \<times> string \<times> string) \<rightharpoonup> Secret"

text \<open>
  The constants of package \<open>constants\<close> are parameters. \<open>KubeConfigSecretName\<close> is a
  format string with one verb, applied to the UID of the cluster.
\<close>

record constants =
  KubeadmToken :: string
  KubeadmTokenExpiryTime :: string
  KubeadmTokenLeftTime :: Duration
  KubeadmTokenTtl :: Duration
  KubeConfigSecretName :: "string \<Rightarrow> string"
  KubeConfigSecretData :: string

text \<open>
  What the libraries and the target cluster answer. The clock gives its \<open>k\<close>-th reading,
  the token generator its \<open>k\<close>-th draw; \<open>time_Parse\<close> and \<open>time_Format\<close> are
  \<open>time.Parse\<close> and \<open>Time.Format\<close> at the layout RFC3339. \<open>apiserver_fault\<close> is an
  error that the API server of the target cluster, or the way to it, gives to the call
  made at a position of the trace, whatever the store holds.
\<close>

record env =
  constants_pkg :: constants
  clock :: "nat \<Rightarrow> Time"
  time_Parse :: "string \<Rightarrow> Time option"
  time_Format :: "Time \<Rightarrow> string"
  GenerateBootstrapToken :: "nat \<Rightarrow> string \<times> error option"
  RESTConfigFromKubeConfig :: "string \<Rightarrow> error + RestConfig"
  NewForConfig :: "RestConfig \<Rightarrow> error option"
  apiserver_fault :: "nat \<Rightarrow> error option"

text \<open>
  The clients held by the provisioner. An interface value that is nil is \<open>None\<close>. Each
  answer may depend on the position of the call in the trace. The event recorder answers
  nothing: it is there or it is nil.
\<close>

datatype EventRecorder = Recorder

record ClusterV1alpha1Interface =
  Clusters_Update :: "nat \<Rightarrow> string \<Rightarrow> Cluster \<Rightarrow> error option"
  Clusters_UpdateStatus :: "nat \<Rightarrow> string \<Rightarrow> Cluster \<Rightarrow> error option"
  Machines_UpdateStatus :: "nat \<Rightarrow> string \<Rightarrow> Machine \<Rightarrow> error option"

record Provisioner =
  clusterV1alpha1 :: "ClusterV1alpha1Interface option"
  eventRecorder :: "EventRecorder option"
  lister :: "nat \<Rightarrow> Cluster \<Rightarrow> error + ptr list"
  k8sClient_Secrets_Get :: "nat \<Rightarrow> string \<Rightarrow> string \<Rightarrow> error + Secret"

subsection \<open>Running a statement: it returns or it panics\<close>

datatype 'a outcome = Panic | Return 'a

type_synonym 'a go = "world \<Rightarrow> 'a outcome \<times> world"

definition return :: "'a \<Rightarrow> 'a go" where
  "return x w = (Return x, w)"

definition panic :: "'a go" where
  "panic w = (Panic, w)"

definition bind :: "'a go \<Rightarrow> ('a \<Rightarrow> 'b go) \<Rightarrow> 'b go" where
  "bind m f w = (case m w of (Panic, w') \<Rightarrow> (Panic, w') | (Return x, w') \<Rightarrow> f x w')"

subsection \<open>Memory\<close>

definition deref :: "'a list \<Rightarrow> ptr \<Rightarrow> 'a option" where
  "deref h p = (case p of None \<Rightarrow> None | Some a \<Rightarrow> if a < length h then Some (h ! a) else None)"

definition nonnil :: "'a option \<Rightarrow> 'a go" where
  "nonnil p = (case p of None \<Rightarrow> panic | Some x \<Rightarrow> return x)"

definition load_cluster :: "ptr \<Rightarrow> Cluster go" where
  "load_cluster p w = nonnil (deref (clusters w) p) w"

definition load_machine :: "ptr \<Rightarrow> Machine go" where
  "load_machine p w = nonnil (deref (machines w) p) w"

definition modify_cluster :: "ptr \<Rightarrow> (Cluster \<Rightarrow> Cluster) \<Rightarrow> unit go" where
  "modify_cluster p f w =
     (case p of
        None \<Rightarrow> (Panic, w)
      | Some a \<Rightarrow>
          if a < length (clusters w)
          then (Return (), w\<lparr>clusters := (clusters w)[a := f (clusters w ! a)]\<rparr>)
          else (Panic, w))"

definition modify_machine :: "ptr \<Rightarrow> (Machine \<Rightarrow> Machine) \<Rightarrow> unit go" where
  "modify_machine p f w =
     (case p of
        None \<Rightarrow> (Panic, w)
      | Some a \<Rightarrow>
          if a < length (machines w)
          then (Return (), w\<lparr>machines := (machines w)[a := f (machines w ! a)]\<rparr>)
          else (Panic, w))"

text \<open>The generated \<open>DeepCopy\<close> of a nil pointer is nil; otherwise it is a new object.\<close>

definition Cluster_DeepCopy :: "ptr \<Rightarrow> ptr go" where
  "Cluster_DeepCopy p w =
     (case deref (clusters w) p of
        None \<Rightarrow> (Return None, w)
      | Some c \<Rightarrow> (Return (Some (length (clusters w))), w\<lparr>clusters := clusters w @ [c]\<rparr>))"

definition Machine_DeepCopy :: "ptr \<Rightarrow> ptr go" where
  "Machine_DeepCopy p w =
     (case deref (machines w) p of
        None \<Rightarrow> (Return None, w)
      | Some m \<Rightarrow> (Return (Some (length (machines w))), w\<lparr>machines := machines w @ [m]\<rparr>))"

text \<open>\<open>p.ObjectMeta.Annotations[k] = v\<close>: an assignment into a nil map panics.\<close>

definition set_annotation :: "ptr \<Rightarrow> string \<Rightarrow> string \<Rightarrow> unit go" where
  "set_annotation p k v =
     bind (load_cluster p) (\<lambda>c.
       case Annotations (cluster_ObjectMeta c) of
         None \<Rightarrow> panic
       | Some m \<Rightarrow>
           modify_cluster p (\<lambda>c. c\<lparr>cluster_ObjectMeta :=
             (cluster_ObjectMeta c)\<lparr>Annotations := Some (m(k \<mapsto> v))\<rparr>\<rparr>))"

text \<open>Reading a missing key of a map of strings gives the empty string.\<close>

definition index0 :: "(string \<rightharpoonup> string) \<Rightarrow> string \<Rightarrow> string" where
  "index0 m k = (case m k of None \<Rightarrow> [] | Some v \<Rightarrow> v)"

subsection \<open>The collaborators\<close>

text \<open>
  A collaborator reads the object it is given and writes nothing in the memory of the
  provisioner: its effects are the entry in the trace and, for the secrets of the target
  cluster, the store.
\<close>

definition time_Now :: "env \<Rightarrow> Time go" where
  "time_Now e w = (Return (clock e (ticks w)), w\<lparr>ticks := Suc (ticks w)\<rparr>)"

definition klog :: "string \<Rightarrow> unit go" where
  "klog line w = (Return (), w\<lparr>logs := logs w @ [line]\<rparr>)"

definition tokenutil_GenerateBootstrapToken :: "env \<Rightarrow> (string \<times> error option) go" where
  "tokenutil_GenerateBootstrapToken e w =
     (Return (GenerateBootstrapToken e (draws w)),
      w\<lparr>draws := Suc (draws w), trace := trace w @ [GenerateToken]\<rparr>)"

text \<open>
  Modelled from the spec: \<open>vsphereutils.GetControlPlaneMachinesForCluster\<close>, the
  control-plane locator: given a parent record, it returns the control-plane node
  references or an error. It reads the cluster and changes nothing.
\<close>

definition GetControlPlaneMachinesForCluster :: "Provisioner \<Rightarrow> ptr \<Rightarrow> (error + ptr list) go" where
  "GetControlPlaneMachinesForCluster pv cluster =
     bind (load_cluster cluster) (\<lambda>c w.
       (Return (lister pv (length (trace w)) c),
        w\<lparr>trace := trace w @ [GetControlPlaneMachines c]\<rparr>))"

text \<open>
  The secrets of the target cluster are a store keyed by host, namespace and name. A
  create of a key that is there fails with the reason AlreadyExists; an update of a key
  that is not there fails with the reason NotFound; either may fail with the fault that
  the environment gives, and then the store is as before.
\<close>

definition Secrets_Create :: "env \<Rightarrow> RestConfig \<Rightarrow> string \<Rightarrow> Secret \<Rightarrow> (error option) go" where
  "Secrets_Create e rc ns s w =
     (let k = (Host rc, ns, Name (secret_ObjectMeta s));
          w1 = w\<lparr>trace := trace w @ [SecretsCreate (Host rc) ns s]\<rparr>
      in case apiserver_fault e (length (trace w)) of
           Some err \<Rightarrow> (Return (Some err), w1)
         | None \<Rightarrow>
            (case secrets w k of
               Some old \<Rightarrow>
                 (Return (Some (StatusError StatusReasonAlreadyExists
                    (Name (secret_ObjectMeta s) @ '' already exists''))), w1)
             | None \<Rightarrow> (Return None, w1\<lparr>secrets := (secrets w)(k \<mapsto> s)\<rparr>)))"

definition Secrets_Update :: "env \<Rightarrow> RestConfig \<Rightarrow> string \<Rightarrow> Secret \<Rightarrow> (error option) go" where
  "Secrets_Update e rc ns s w =
     (let k = (Host rc, ns, Name (secret_ObjectMeta s));
          w1 = w\<lparr>trace := trace w @ [SecretsUpdate (Host rc) ns s]\<rparr>
      in case apiserver_fault e (length (trace w)) of
           Some err \<Rightarrow> (Return (Some err), w1)
         | None \<Rightarrow>
            (case secrets w k of
               None \<Rightarrow>
                 (Return (Some (StatusError StatusReasonNotFound
                    (Name (secret_ObjectMeta s) @ '' not found''))), w1)
             | Some old \<Rightarrow> (Return None, w1\<lparr>secrets := (secrets w)(k \<mapsto> s)\<rparr>)))"

definition Clusters_Update_call ::
    "ClusterV1alpha1Interface \<Rightarrow> string \<Rightarrow> ptr \<Rightarrow> (error option) go" where
  "Clusters_Update_call client ns p =
     bind (load_cluster p) (\<lambda>c w.
       (Return (Clusters_Update client (length (trace w)) ns c),
        w\<lparr>trace := trace w @ [ClustersUpdate ns c]\<rparr>))"

definition Clusters_UpdateStatus_call ::
    "ClusterV1alpha1Interface \<Rightarrow> string \<Rightarrow> ptr \<Rightarrow> (error option) go" where
  "Clusters_UpdateStatus_call client ns p =
     bind (load_cluster p) (\<lambda>c w.
       (Return (Clusters_UpdateStatus client (length (trace w)) ns c),
        w\<lparr>trace := trace w @ [ClustersUpdateStatus ns c]\<rparr>))"

definition Machines_UpdateStatus_call ::
    "ClusterV1alpha1Interface \<Rightarrow> string \<Rightarrow> ptr \<Rightarrow> (error option) go" where
  "Machines_UpdateStatus_call client ns p =
     bind (load_machine p) (\<lambda>m w.
       (Return (Machines_UpdateStatus client (length (trace w)) ns m),
        w\<lparr>trace := trace w @ [MachinesUpdateStatus ns m]\<rparr>))"

text \<open>\<open>pv.eventRecorder.Eventf\<close>: a method call on a nil recorder panics.\<close>

definition eventRecorder_Eventf ::
    "Provisioner \<Rightarrow> ObjectRef \<Rightarrow> string \<Rightarrow> string \<Rightarrow> string \<Rightarrow> unit go" where
  "eventRecorder_Eventf pv obj eventtype reason message =
     bind (nonnil (eventRecorder pv)) (\<lambda>recorder w.
       (Return (), w\<lparr>trace := trace w @ [Eventf obj eventtype reason message]\<rparr>))"

section \<open>The functions of utils.go\<close>

text \<open>\<open>GetKubeConfig\<close>: the kube-config of a cluster, from the secret named after its UID.\<close>

definition GetKubeConfig :: "env \<Rightarrow> Provisioner \<Rightarrow> ptr \<Rightarrow> (string \<times> error option) go" where
  "GetKubeConfig e pv cluster =
     bind (load_cluster cluster) (\<lambda>c w.
       let ns = Namespace (cluster_ObjectMeta c);
           name = KubeConfigSecretName (constants_pkg e) (UID (cluster_ObjectMeta c));
           w1 = w\<lparr>trace := trace w @ [SecretsGet ns name]\<rparr>
       in case k8sClient_Secrets_Get pv (length (trace w)) ns name of
            Inl err \<Rightarrow> (Return ([], Some err), w1)
          | Inr secret \<Rightarrow>
              (Return (index0 (secret_Data secret) (KubeConfigSecretData (constants_pkg e)), None), w1))"

text \<open>The secret that \<open>createKubeadmToken\<close> builds from the two halves of the token.\<close>

definition bootstrap_secret :: "string \<Rightarrow> string \<Rightarrow> string \<Rightarrow> Secret" where
  "bootstrap_secret tokenID tokenSecret expiration =
     \<lparr>secret_ObjectMeta =
        \<lparr>Name = BootstrapTokenSecretName tokenID, Namespace = NamespaceSystem,
         UID = [], Annotations = None\<rparr>,
      secret_Type = SecretTypeBootstrapToken,
      secret_Data = [
        BootstrapTokenIDKey \<mapsto> tokenID,
        BootstrapTokenSecretKey \<mapsto> tokenSecret,
        BootstrapTokenExpirationKey \<mapsto> expiration,
        BootstrapTokenUsageAuthentication \<mapsto> ''true'',
        BootstrapTokenUsageSigningKey \<mapsto> ''true'',
        BootstrapTokenExtraGroupsKey \<mapsto> ''system:bootstrappers:kubeadm:default-node-token'',
        BootstrapTokenDescriptionKey \<mapsto>
          ''bootstrap token generated by cluster-api-provider-vsphere'']\<rparr>"

text \<open>
  Lines 115 to 123 of \<open>createKubeadmToken\<close>: create the secret and, when it is already
  there, update it. The result is the error that \<open>createKubeadmToken\<close> returns there,
  or nil when the function goes on to its last line.
\<close>

definition createOrUpdateSecret :: "env \<Rightarrow> RestConfig \<Rightarrow> Secret \<Rightarrow> (error option) go" where
  "createOrUpdateSecret e config secret =
     bind (Secrets_Create e config NamespaceSystem secret) (\<lambda>err.
     case err of
       None \<Rightarrow> return None
     | Some cerr \<Rightarrow>
         if \<not> IsAlreadyExists cerr
         then return (Some (errorString
                (''unable to create bootstrap token secret: '' @ Error cerr)))
         else
         bind (Secrets_Update e config NamespaceSystem secret) (\<lambda>err.
         case err of
           Some uerr \<Rightarrow> return (Some (errorString
                (''unable to update bootstrap token secret: '' @ Error uerr)))
         | None \<Rightarrow> return None))"

text \<open>
  \<open>createKubeadmToken\<close>. The slices \<open>token[0:6]\<close> and \<open>token[7:]\<close> panic on a token that
  is too short.
\<close>

definition createKubeadmToken :: "env \<Rightarrow> string \<Rightarrow> (string \<times> error option) go" where
  "createKubeadmToken e kubeconfig =
     bind (tokenutil_GenerateBootstrapToken e) (\<lambda>(token, err).
     if err \<noteq> None \<or> token = []
     then return ([], Some (errorString (''unable to create kubeadm token: '' @ fmt_s err)))
     else
     bind (if length token < BootstrapTokenIDBytes then panic
           else return (take BootstrapTokenIDBytes token)) (\<lambda>tokenID.
     bind (if length token < BootstrapTokenIDBytes + 1 then panic
           else return (drop (BootstrapTokenIDBytes + 1) token)) (\<lambda>tokenSecret.
     bind (time_Now e) (\<lambda>now.
     let expiration = time_Format e (time_Add (time_UTC now) (KubeadmTokenTtl (constants_pkg e)));
         secret = bootstrap_secret tokenID tokenSecret expiration
     in case RESTConfigFromKubeConfig e kubeconfig of
          Inl err \<Rightarrow> return ([], Some err)
        | Inr rc \<Rightarrow>
     (let config = AddUserAgent rc ''cluster-api-provider-vsphere''
      in case NewForConfig e config of
          Some err \<Rightarrow> return ([], Some err)
        | None \<Rightarrow>
     bind (createOrUpdateSecret e config secret) (\<lambda>err.
     if err \<noteq> None then return ([], err)
     else return (token, None)))))))"

text \<open>
  Lines 30 to 37 of \<open>GetKubeadmToken\<close>: the token in the annotations, when its expiry
  parses and leaves more than \<open>KubeadmTokenLeftTime\<close>. The clock is read only when the
  expiry has parsed.
\<close>

definition cachedToken :: "env \<Rightarrow> Cluster \<Rightarrow> (string option) go" where
  "cachedToken e c =
     (case Annotations (cluster_ObjectMeta c) of
        None \<Rightarrow> return None
      | Some m \<Rightarrow>
         (case m (KubeadmToken (constants_pkg e)) of
            None \<Rightarrow> return None
          | Some token \<Rightarrow>
             (case time_Parse e (index0 m (KubeadmTokenExpiryTime (constants_pkg e))) of
                None \<Rightarrow> return None
              | Some tokenexpirytime \<Rightarrow>
                  bind (time_Now e) (\<lambda>now.
                  if KubeadmTokenLeftTime (constants_pkg e) < time_Sub tokenexpirytime now
                  then return (Some token)
                  else return None))))"

text \<open>
  Lines 58 to 69 of \<open>GetKubeadmToken\<close>: the token and its expiry are written on a copy
  of the cluster, and the copy is sent to the API server. The error of the update is
  logged and returned with the token.
\<close>

definition cacheKubeadmToken :: "env \<Rightarrow> Provisioner \<Rightarrow> ptr \<Rightarrow> string \<Rightarrow> (string \<times> error option) go" where
  "cacheKubeadmToken e pv cluster token =
     bind (Cluster_DeepCopy cluster) (\<lambda>ncluster.
     bind (load_cluster ncluster) (\<lambda>nc.
     bind (if Annotations (cluster_ObjectMeta nc) = None
           then modify_cluster ncluster (\<lambda>c. c\<lparr>cluster_ObjectMeta :=
                  (cluster_ObjectMeta c)\<lparr>Annotations := Some Map.empty\<rparr>\<rparr>)
           else return ()) (\<lambda>_.
     bind (set_annotation ncluster (KubeadmToken (constants_pkg e)) token) (\<lambda>_.
     bind (time_Now e) (\<lambda>now.
     bind (set_annotation ncluster (KubeadmTokenExpiryTime (constants_pkg e))
             (time_Format e (time_Add now (KubeadmTokenTtl (constants_pkg e))))) (\<lambda>_.
     bind (nonnil (clusterV1alpha1 pv)) (\<lambda>client.
     bind (load_cluster cluster) (\<lambda>c.
     bind (Clusters_Update_call client (Namespace (cluster_ObjectMeta c)) ncluster) (\<lambda>err.
     bind (if err \<noteq> None
           then klog (''Could not cache the kubeadm token on cluster object: '' @ fmt_s err)
           else return ()) (\<lambda>_.
     return (token, err)))))))))))"

definition GetKubeadmToken :: "env \<Rightarrow> Provisioner \<Rightarrow> ptr \<Rightarrow> (string \<times> error option) go" where
  "GetKubeadmToken e pv cluster =
     bind (load_cluster cluster) (\<lambda>c.
     bind (cachedToken e c) (\<lambda>cached.
     case cached of
       Some token \<Rightarrow> return (token, None)
     | None \<Rightarrow>
     bind (GetControlPlaneMachinesForCluster pv cluster) (\<lambda>r.
     case r of
       Inl err \<Rightarrow> return ([], Some err)
     | Inr controlPlaneMachines \<Rightarrow>
     if length controlPlaneMachines = 0
     then return ([], Some (errorString ''No control plane nodes available''))
     else
     bind (GetKubeConfig e pv cluster) (\<lambda>(kubeconfig, err).
     if err \<noteq> None then return ([], err)
     else
     bind (createKubeadmToken e kubeconfig) (\<lambda>(token, err).
     if err \<noteq> None then return ([], err)
     else cacheKubeadmToken e pv cluster token)))))"

text \<open>
  \<open>HandleMachineError\<close> and \<open>HandleClusterError\<close>. The error is a pointer: \<open>None\<close> is
  nil, and reading a field of it panics. The results of \<open>UpdateStatus\<close> are dropped. The
  client is tested against nil before it is used; the event recorder is not.
\<close>

definition HandleMachineError ::
    "Provisioner \<Rightarrow> ptr \<Rightarrow> MachineError option \<Rightarrow> string \<Rightarrow> (error option) go" where
  "HandleMachineError pv machine err eventAction =
     bind (case clusterV1alpha1 pv of
             None \<Rightarrow> return ()
           | Some client \<Rightarrow>
               bind (Machine_DeepCopy machine) (\<lambda>nmachine.
               bind (nonnil err) (\<lambda>er.
               let reason = me_Reason er; message = me_Message er in
               bind (modify_machine nmachine (\<lambda>m. m\<lparr>machine_Status :=
                       (machine_Status m)\<lparr>ms_ErrorReason := Some reason\<rparr>\<rparr>)) (\<lambda>_.
               bind (modify_machine nmachine (\<lambda>m. m\<lparr>machine_Status :=
                       (machine_Status m)\<lparr>ms_ErrorMessage := Some message\<rparr>\<rparr>)) (\<lambda>_.
               bind (load_machine nmachine) (\<lambda>nm.
               bind (Machines_UpdateStatus_call client
                       (Namespace (machine_ObjectMeta nm)) nmachine) (\<lambda>_.
               return ()))))))) (\<lambda>_.
     bind (if eventAction \<noteq> []
           then bind (nonnil err) (\<lambda>er.
                  eventRecorder_Eventf pv (MachineRef machine) EventTypeWarning
                    (''Failed'' @ eventAction) (me_Reason er))
           else return ()) (\<lambda>_.
     bind (nonnil err) (\<lambda>er.
     bind (klog (''Machine error: '' @ me_Message er)) (\<lambda>_.
     return (Some (MachineErr er))))))"

definition HandleClusterError ::
    "Provisioner \<Rightarrow> ptr \<Rightarrow> ClusterError option \<Rightarrow> string \<Rightarrow> (error option) go" where
  "HandleClusterError pv cluster err eventAction =
     bind (case clusterV1alpha1 pv of
             None \<Rightarrow> return ()
           | Some client \<Rightarrow>
               bind (Cluster_DeepCopy cluster) (\<lambda>ncluster.
               bind (nonnil err) (\<lambda>er.
               let reason = ce_Reason er; message = ce_Message er in
               bind (modify_cluster ncluster (\<lambda>c. c\<lparr>cluster_Status :=
                       (cluster_Status c)\<lparr>cs_ErrorReason := reason\<rparr>\<rparr>)) (\<lambda>_.
               bind (modify_cluster ncluster (\<lambda>c. c\<lparr>cluster_Status :=
                       (cluster_Status c)\<lparr>cs_ErrorMessage := message\<rparr>\<rparr>)) (\<lambda>_.
               bind (load_cluster ncluster) (\<lambda>nc.
               bind (Clusters_UpdateStatus_call client
                       (Namespace (cluster_ObjectMeta nc)) ncluster) (\<lambda>_.
               return ()))))))) (\<lambda>_.
     bind (if eventAction \<noteq> []
           then bind (nonnil err) (\<lambda>er.
                  eventRecorder_Eventf pv (ClusterRef cluster) EventTypeWarning
                    (''Failed'' @ eventAction) (ce_Reason er))
           else return ()) (\<lambda>_.
     bind (nonnil err) (\<lambda>er.
     bind (klog (''Cluster error: '' @ ce_Message er)) (\<lambda>_.
     return (Some (ClusterErr er))))))"

section \<open>Terms used to state the theorems\<close>

text \<open>
  The secret that \<open>createKubeadmToken\<close> builds when it is called in the world \<open>w\<close>
  (lines 81 to 101): the halves of the token drawn there and the expiry computed from the
  clock reading taken there.
\<close>

definition minted_secret :: "env \<Rightarrow> world \<Rightarrow> Secret" where
  "minted_secret e w =
     bootstrap_secret
       (take BootstrapTokenIDBytes (fst (GenerateBootstrapToken e (draws w))))
       (drop (BootstrapTokenIDBytes + 1) (fst (GenerateBootstrapToken e (draws w))))
       (time_Format e (time_Add (time_UTC (clock e (ticks w))) (KubeadmTokenTtl (constants_pkg e))))"

text \<open>The world in which \<open>createKubeadmToken\<close>, called in \<open>w\<close>, makes its first store call.\<close>

definition minting :: "world \<Rightarrow> world" where
  "minting w = w\<lparr>draws := Suc (draws w), trace := trace w @ [GenerateToken], ticks := Suc (ticks w)\<rparr>"

text \<open>
  The cluster \<open>c\<close> with the token and the expiry \<open>now + KubeadmTokenTtl\<close> added to its
  annotations (lines 59 to 64).
\<close>

definition cached_cluster :: "env \<Rightarrow> Cluster \<Rightarrow> string \<Rightarrow> Time \<Rightarrow> Cluster" where
  "cached_cluster e c tok now =
     c\<lparr>cluster_ObjectMeta := (cluster_ObjectMeta c)\<lparr>Annotations :=
        Some ((case Annotations (cluster_ObjectMeta c) of None \<Rightarrow> Map.empty | Some m \<Rightarrow> m)
          (KubeadmToken (constants_pkg e) \<mapsto> tok,
           KubeadmTokenExpiryTime (constants_pkg e) \<mapsto>
             time_Format e (time_Add now (KubeadmTokenTtl (constants_pkg e)))))\<rparr>\<rparr>"

text \<open>The calls that a run started in \<open>w\<close> has added to the trace when it ends in \<open>w'\<close>.\<close>

definition new_calls :: "world \<Rightarrow> world \<Rightarrow> call list" where
  "new_calls w w' = drop (length (trace w)) (trace w')"

text \<open>
  A statement keeps the heaps of \<open>w0\<close> when every object that \<open>w0\<close> holds is still
  there, unchanged, after it has run.
\<close>

definition keeps :: "world \<Rightarrow> 'a go \<Rightarrow> bool" where
  "keeps w0 m \<longleftrightarrow>
     (\<forall>w. take (length (clusters w0)) (clusters w) = clusters w0 \<and> machines w = machines w0 \<longrightarrow>
          take (length (clusters w0)) (clusters (snd (m w))) = clusters w0 \<and>
          machines (snd (m w)) = machines w0)"

section \<open>A concrete provisioner and world\<close>

definition ex_constants :: constants where
  "ex_constants =
     \<lparr>KubeadmToken = ''k8s-token'',
      KubeadmTokenExpiryTime = ''k8s-token-expiry-time'',
      KubeadmTokenLeftTime = 300000000000,
      KubeadmTokenTtl = 600000000000,
      KubeConfigSecretName = (\<lambda>uid. uid @ ''-kubeconfig''),
      KubeConfigSecretData = ''admin-kubeconfig''\<rparr>"

text \<open>
  The clock stands at 2019-03-01T00:00:00Z and the local zone is UTC. \<open>ex_Parse\<close> and
  \<open>ex_Format\<close> are \<open>time.Parse\<close> and \<open>Time.Format\<close> at RFC3339 on the few timestamps
  that the runs below meet.
\<close>

definition ex_now :: Time where
  "ex_now = \<lparr>nanos = 1551398400000000000, loc = Local\<rparr>"

definition ex_Parse :: "string \<Rightarrow> Time option" where
  "ex_Parse s =
     (if s = ''2019-03-01T01:00:00Z'' then Some \<lparr>nanos = 1551402000000000000, loc = UTC\<rparr>
      else if s = ''2019-02-28T23:59:50Z'' then Some \<lparr>nanos = 1551398390000000000, loc = UTC\<rparr>
      else None)"

definition ex_Format :: "Time \<Rightarrow> string" where
  "ex_Format t =
     (if nanos t = 1551399000000000000 then ''2019-03-01T00:10:00Z''
      else ''0001-01-01T00:00:00Z'')"

definition ex_token :: string where
  "ex_token = ''abcdef.0123456789abcdef''"

definition ex_env :: env where
  "ex_env =
     \<lparr>constants_pkg = ex_constants,
      clock = (\<lambda>k. ex_now),
      time_Parse = ex_Parse,
      time_Format = ex_Format,
      GenerateBootstrapToken = (\<lambda>k. (ex_token, None)),
      RESTConfigFromKubeConfig = (\<lambda>kubeconfig. Inr \<lparr>Host = kubeconfig, UserAgent = []\<rparr>),
      NewForConfig = (\<lambda>config. None),
      apiserver_fault = (\<lambda>k. None)\<rparr>"

text \<open>
  An environment whose clock moves on by a millisecond at every reading, with
  \<open>Time.Format\<close> at RFC3339 on the second that begins at 2019-03-01T00:10:00Z.
\<close>

definition ex_Format_seconds :: "Time \<Rightarrow> string" where
  "ex_Format_seconds t =
     (if 1551399000000000000 \<le> nanos t \<and> nanos t < 1551399001000000000
      then ''2019-03-01T00:10:00Z''
      else ''0001-01-01T00:00:00Z'')"

definition ex_env_ticking :: env where
  "ex_env_ticking =
     ex_env\<lparr>clock := (\<lambda>k. \<lparr>nanos = 1551398400000000000 + 1000000 * int k, loc = Local\<rparr>),
            time_Format := ex_Format_seconds\<rparr>"

definition ex_env_forbidden :: env where
  "ex_env_forbidden =
     ex_env\<lparr>apiserver_fault := (\<lambda>k. Some (StatusError ''Forbidden'' ''secrets is forbidden''))\<rparr>"

definition ex_env_norandom :: env where
  "ex_env_norandom =
     ex_env\<lparr>GenerateBootstrapToken := (\<lambda>k. ([], Some (errorString ''unexpected EOF'')))\<rparr>"

definition ex_client :: ClusterV1alpha1Interface where
  "ex_client =
     \<lparr>Clusters_Update = (\<lambda>k ns c. None),
      Clusters_UpdateStatus = (\<lambda>k ns c. None),
      Machines_UpdateStatus = (\<lambda>k ns m. None)\<rparr>"

definition ex_conflict :: error where
  "ex_conflict = StatusError ''Conflict'' ''the object has been modified''"

definition ex_client_conflict :: ClusterV1alpha1Interface where
  "ex_client_conflict =
     \<lparr>Clusters_Update = (\<lambda>k ns c. Some ex_conflict),
      Clusters_UpdateStatus = (\<lambda>k ns c. Some ex_conflict),
      Machines_UpdateStatus = (\<lambda>k ns m. Some ex_conflict)\<rparr>"

definition ex_kubeconfig_secret :: Secret where
  "ex_kubeconfig_secret =
     \<lparr>secret_ObjectMeta =
        \<lparr>Name = ''uid-1-kubeconfig'', Namespace = ''default'', UID = [], Annotations = None\<rparr>,
      secret_Type = ''Opaque'',
      secret_Data = [''admin-kubeconfig'' \<mapsto> ''https://10.0.0.1:6443'']\<rparr>"

definition ex_pv :: Provisioner where
  "ex_pv =
     \<lparr>clusterV1alpha1 = Some ex_client,
      eventRecorder = Some Recorder,
      lister = (\<lambda>k c. Inr [Some 0]),
      k8sClient_Secrets_Get = (\<lambda>k ns name. Inr ex_kubeconfig_secret)\<rparr>"

definition ex_pv_conflict :: Provisioner where
  "ex_pv_conflict = ex_pv\<lparr>clusterV1alpha1 := Some ex_client_conflict\<rparr>"

definition ex_pv_noclient :: Provisioner where
  "ex_pv_noclient = ex_pv\<lparr>clusterV1alpha1 := None\<rparr>"

definition ex_pv_norecorder :: Provisioner where
  "ex_pv_norecorder = ex_pv\<lparr>eventRecorder := None\<rparr>"

definition ex_cluster :: Cluster where
  "ex_cluster =
     \<lparr>cluster_ObjectMeta =
        \<lparr>Name = ''c1'', Namespace = ''default'', UID = ''uid-1'', Annotations = None\<rparr>,
      cluster_Status = \<lparr>cs_ErrorReason = [], cs_ErrorMessage = []\<rparr>\<rparr>"

definition ex_cluster_cached :: Cluster where
  "ex_cluster_cached =
     ex_cluster\<lparr>cluster_ObjectMeta := (cluster_ObjectMeta ex_cluster)\<lparr>Annotations :=
        Some [''k8s-token'' \<mapsto> ''uvwxyz.fedcba9876543210'',
              ''k8s-token-expiry-time'' \<mapsto> ''2019-03-01T01:00:00Z'']\<rparr>\<rparr>"

definition ex_cluster_expired :: Cluster where
  "ex_cluster_expired =
     ex_cluster\<lparr>cluster_ObjectMeta := (cluster_ObjectMeta ex_cluster)\<lparr>Annotations :=
        Some [''k8s-token'' \<mapsto> ''uvwxyz.fedcba9876543210'',
              ''k8s-token-expiry-time'' \<mapsto> ''2019-02-28T23:59:50Z'']\<rparr>\<rparr>"

definition ex_machine :: Machine where
  "ex_machine =
     \<lparr>machine_ObjectMeta =
        \<lparr>Name = ''m1'', Namespace = ''default'', UID = ''uid-2'', Annotations = None\<rparr>,
      machine_Status = \<lparr>ms_ErrorReason = None, ms_ErrorMessage = None\<rparr>\<rparr>"

definition ex_world :: world where
  "ex_world =
     \<lparr>clusters = [ex_cluster], machines = [ex_machine], ticks = 0, draws = 0,
      trace = [], logs = [], secrets = Map.empty\<rparr>"

definition ex_world_cached :: world where
  "ex_world_cached = ex_world\<lparr>clusters := [ex_cluster_cached]\<rparr>"

definition ex_world_expired :: world where
  "ex_world_expired = ex_world\<lparr>clusters := [ex_cluster_expired]\<rparr>"

definition ex_secret :: Secret where
  "ex_secret = bootstrap_secret ''abcdef'' ''0123456789abcdef'' ''2019-03-01T00:10:00Z''"

definition ex_secret_old :: Secret where
  "ex_secret_old = bootstrap_secret ''abcdef'' ''ffffffffffffffff'' ''2019-02-28T00:10:00Z''"

text \<open>A world where the target cluster already holds a secret for the token identifier.\<close>

definition ex_world_stored :: world where
  "ex_world_stored =
     ex_world\<lparr>secrets :=
       [(''https://10.0.0.1:6443'', ''kube-system'', ''bootstrap-token-abcdef'') \<mapsto> ex_secret_old]\<rparr>"

definition ex_machine_error :: MachineError where
  "ex_machine_error = \<lparr>me_Reason = ''CreateError'', me_Message = ''cannot clone the VM''\<rparr>"

definition ex_cluster_error :: ClusterError where
  "ex_cluster_error = \<lparr>ce_Reason = ''InvalidConfiguration'', ce_Message = ''no datacenter''\<rparr>"

section \<open>Lemmas on the building blocks\<close>

lemmas go_defs = bind_def return_def panic_def nonnil_def load_cluster_def load_machine_def
  modify_cluster_def modify_machine_def Cluster_DeepCopy_def Machine_DeepCopy_def
  set_annotation_def time_Now_def klog_def tokenutil_GenerateBootstrapToken_def
  GetControlPlaneMachinesForCluster_def Secrets_Create_def Secrets_Update_def
  Clusters_Update_call_def Clusters_UpdateStatus_call_def Machines_UpdateStatus_call_def
  eventRecorder_Eventf_def deref_def

lemmas ex_defs = ex_constants_def ex_now_def ex_Parse_def ex_Format_def ex_token_def ex_env_def
  ex_env_forbidden_def ex_env_norandom_def ex_Format_seconds_def ex_env_ticking_def
  ex_client_def ex_conflict_def ex_client_conflict_def
  ex_kubeconfig_secret_def ex_pv_def ex_pv_conflict_def ex_pv_noclient_def ex_pv_norecorder_def
  ex_cluster_def
  ex_cluster_cached_def ex_cluster_expired_def ex_machine_def ex_world_def ex_world_cached_def
  ex_world_expired_def ex_secret_def ex_secret_old_def ex_world_stored_def
  ex_machine_error_def ex_cluster_error_def

lemmas k8s_defs = NamespaceSystem_def EventTypeWarning_def BootstrapTokenIDBytes_def
  BootstrapTokenSecretPrefix_def SecretTypeBootstrapToken_def BootstrapTokenIDKey_def
  BootstrapTokenSecretKey_def BootstrapTokenExpirationKey_def BootstrapTokenUsageAuthentication_def
  BootstrapTokenUsageSigningKey_def BootstrapTokenExtraGroupsKey_def BootstrapTokenDescriptionKey_def
  BootstrapTokenSecretName_def AddUserAgent_def StatusReasonAlreadyExists_def StatusReasonNotFound_def

lemma bind_Return: "m w = (Return x, w') \<Longrightarrow> bind m f w = f x w'"
  by (simp add: bind_def)

lemma time_Sub_exact:
  "minDuration \<le> nanos t - nanos u \<Longrightarrow> nanos t - nanos u \<le> maxDuration \<Longrightarrow>
     time_Sub t u = nanos t - nanos u"
  by (simp add: time_Sub_def Let_def)

lemma time_Sub_greater:
  "minDuration \<le> left \<Longrightarrow> left < maxDuration \<Longrightarrow>
     left < time_Sub t u \<longleftrightarrow> left < nanos t - nanos u"
  by (auto simp: time_Sub_def Let_def minDuration_def maxDuration_def)

lemma Secrets_Create_effect:
  "Secrets_Create e rc ns s w = (r, w') \<Longrightarrow>
     trace w' = trace w @ [SecretsCreate (Host rc) ns s] \<and> (\<exists>x. r = Return x) \<and>
     clusters w' = clusters w \<and> machines w' = machines w \<and> ticks w' = ticks w \<and>
     draws w' = draws w \<and> logs w' = logs w"
  by (auto simp: Secrets_Create_def Let_def split: option.splits)

lemma Secrets_Update_effect:
  "Secrets_Update e rc ns s w = (r, w') \<Longrightarrow>
     trace w' = trace w @ [SecretsUpdate (Host rc) ns s] \<and> (\<exists>x. r = Return x) \<and>
     clusters w' = clusters w \<and> machines w' = machines w \<and> ticks w' = ticks w \<and>
     draws w' = draws w \<and> logs w' = logs w"
  by (auto simp: Secrets_Update_def Let_def split: option.splits)

lemma Secrets_Create_store:
  "Secrets_Create e rc ns s w = (Return None, w') \<Longrightarrow>
     secrets w' = (secrets w)((Host rc, ns, Name (secret_ObjectMeta s)) \<mapsto> s)"
  by (auto simp: Secrets_Create_def Let_def split: option.splits)

lemma Secrets_Create_fail_store:
  "Secrets_Create e rc ns s w = (Return (Some err), w') \<Longrightarrow> secrets w' = secrets w"
  by (auto simp: Secrets_Create_def Let_def split: option.splits)

lemma Secrets_Update_store:
  "Secrets_Update e rc ns s w = (Return None, w') \<Longrightarrow>
     secrets w' = (secrets w)((Host rc, ns, Name (secret_ObjectMeta s)) \<mapsto> s)"
  by (auto simp: Secrets_Update_def Let_def split: option.splits)

lemma Secrets_Update_fail_store:
  "Secrets_Update e rc ns s w = (Return (Some err), w') \<Longrightarrow> secrets w' = secrets w"
  by (auto simp: Secrets_Update_def Let_def split: option.splits)

lemma createOrUpdateSecret_cases:
  assumes cr: "Secrets_Create e config NamespaceSystem s w = (Return cerr, w3)"
    and up: "Secrets_Update e config NamespaceSystem s w3 = (Return uerr, w4)"
  shows "createOrUpdateSecret e config s w =
     (case cerr of
        None \<Rightarrow> (Return None, w3)
      | Some ce \<Rightarrow>
          if IsAlreadyExists ce
          then (case uerr of
                  None \<Rightarrow> (Return None, w4)
                | Some ue \<Rightarrow> (Return (Some (errorString
                    (''unable to update bootstrap token secret: '' @ Error ue))), w4))
          else (Return (Some (errorString
                    (''unable to create bootstrap token secret: '' @ Error ce))), w3))"
  unfolding createOrUpdateSecret_def
  by (simp add: bind_def return_def cr up split: option.splits)

lemma Secrets_Create_total: "\<exists>r w'. Secrets_Create e rc ns s w = (Return r, w')"
  by (simp add: Secrets_Create_def Let_def split: option.splits)

lemma Secrets_Update_total: "\<exists>r w'. Secrets_Update e rc ns s w = (Return r, w')"
  by (simp add: Secrets_Update_def Let_def split: option.splits)

lemma createOrUpdateSecret_effect:
  assumes "createOrUpdateSecret e config s w = (r, w')"
  shows "(\<exists>x. r = Return x) \<and>
         clusters w' = clusters w \<and> machines w' = machines w \<and> ticks w' = ticks w \<and>
         draws w' = draws w \<and> logs w' = logs w \<and>
         (trace w' = trace w @ [SecretsCreate (Host config) NamespaceSystem s] \<or>
          trace w' = trace w @ [SecretsCreate (Host config) NamespaceSystem s,
                                SecretsUpdate (Host config) NamespaceSystem s])"
proof -
  obtain cerr w3 where cr: "Secrets_Create e config NamespaceSystem s w = (Return cerr, w3)"
    using Secrets_Create_total by blast
  obtain uerr w4 where up: "Secrets_Update e config NamespaceSystem s w3 = (Return uerr, w4)"
    using Secrets_Update_total by blast
  note c = Secrets_Create_effect [OF cr] and u = Secrets_Update_effect [OF up]
  show ?thesis
    using assms c u unfolding createOrUpdateSecret_cases [OF cr up]
    by (auto split: option.splits if_splits)
qed

lemma createOrUpdateSecret_success:
  assumes "createOrUpdateSecret e config s w = (Return None, w')"
  shows "secrets w' = (secrets w)((Host config, NamespaceSystem, Name (secret_ObjectMeta s)) \<mapsto> s)"
proof -
  obtain cerr w3 where cr: "Secrets_Create e config NamespaceSystem s w = (Return cerr, w3)"
    using Secrets_Create_total by blast
  obtain uerr w4 where up: "Secrets_Update e config NamespaceSystem s w3 = (Return uerr, w4)"
    using Secrets_Update_total by blast
  show ?thesis
  proof (cases cerr)
    case None
    with assms cr up show ?thesis
      unfolding createOrUpdateSecret_cases [OF cr up]
      by (auto dest: Secrets_Create_store)
  next
    case (Some ce)
    with assms have ae: "IsAlreadyExists ce" and u: "uerr = None" and w: "w' = w4"
      unfolding createOrUpdateSecret_cases [OF cr up]
      by (auto split: option.splits if_splits)
    from cr Some have "secrets w3 = secrets w" by (auto dest: Secrets_Create_fail_store)
    moreover from up u have "secrets w4 = (secrets w3)((Host config, NamespaceSystem, Name (secret_ObjectMeta s)) \<mapsto> s)"
      by (auto dest: Secrets_Update_store)
    ultimately show ?thesis using w by simp
  qed
qed

lemma createOrUpdateSecret_present:
  assumes present: "secrets w (Host config, NamespaceSystem, Name (secret_ObjectMeta s)) = Some s"
  shows "secrets (snd (createOrUpdateSecret e config s w)) = secrets w"
proof -
  obtain cerr w3 where cr: "Secrets_Create e config NamespaceSystem s w = (Return cerr, w3)"
    using Secrets_Create_total by blast
  obtain uerr w4 where up: "Secrets_Update e config NamespaceSystem s w3 = (Return uerr, w4)"
    using Secrets_Update_total by blast
  have "fst (Secrets_Create e config NamespaceSystem s w) \<noteq> Return None"
    using present by (simp add: Secrets_Create_def Let_def split: option.splits)
  with cr have "cerr \<noteq> None" by auto
  then obtain ce where ce: "cerr = Some ce" by auto
  with cr have s3: "secrets w3 = secrets w" by (auto dest: Secrets_Create_fail_store)
  have s4: "secrets w4 = secrets w"
  proof (cases uerr)
    case None
    with up have "secrets w4 = (secrets w3)((Host config, NamespaceSystem, Name (secret_ObjectMeta s)) \<mapsto> s)"
      by (auto dest: Secrets_Update_store)
    with s3 present show ?thesis by (simp add: map_upd_triv)
  next
    case (Some ue)
    with up s3 show ?thesis by (auto dest: Secrets_Update_fail_store)
  qed
  show ?thesis
    unfolding createOrUpdateSecret_cases [OF cr up]
    using s3 s4 ce by (auto split: option.splits)
qed

lemma createOrUpdateSecret_fallback:
  assumes present: "secrets w (Host config, NamespaceSystem, Name (secret_ObjectMeta s)) = Some old"
    and nofault: "apiserver_fault e (length (trace w)) = None"
                 "apiserver_fault e (Suc (length (trace w))) = None"
  shows "fst (createOrUpdateSecret e config s w) = Return None \<and>
         trace (snd (createOrUpdateSecret e config s w)) =
           trace w @ [SecretsCreate (Host config) NamespaceSystem s,
                      SecretsUpdate (Host config) NamespaceSystem s]"
  using assms
  by (simp add: createOrUpdateSecret_def bind_def return_def Secrets_Create_def Secrets_Update_def
        Let_def StatusReasonAlreadyExists_def)

lemma createKubeadmToken_unfold:
  assumes gen: "GenerateBootstrapToken e (draws w) = (tok, None)" "BootstrapTokenIDBytes + 1 \<le> length tok"
    and rc: "RESTConfigFromKubeConfig e kubeconfig = Inr rc"
            "NewForConfig e (AddUserAgent rc ''cluster-api-provider-vsphere'') = None"
  shows "createKubeadmToken e kubeconfig w =
         (case createOrUpdateSecret e (AddUserAgent rc ''cluster-api-provider-vsphere'')
                 (minted_secret e w) (minting w) of
            (Panic, w') \<Rightarrow> (Panic, w')
          | (Return None, w') \<Rightarrow> (Return (tok, None), w')
          | (Return (Some err), w') \<Rightarrow> (Return ([], Some err), w'))"
proof -
  have tok: "tok \<noteq> []" "\<not> length tok < BootstrapTokenIDBytes" "\<not> length tok < BootstrapTokenIDBytes + 1"
    using gen(2) by auto
  show ?thesis
    unfolding createKubeadmToken_def minted_secret_def minting_def
    by (simp add: bind_def return_def time_Now_def tokenutil_GenerateBootstrapToken_def gen rc Let_def tok
           del: One_nat_def split: prod.splits outcome.splits option.splits)
qed

lemma createKubeadmToken_success:
  assumes "createKubeadmToken e kubeconfig w = (Return (tok, None), w')"
  shows "GenerateBootstrapToken e (draws w) = (tok, None) \<and>
         BootstrapTokenIDBytes + 1 \<le> length tok \<and>
         (\<exists>rc. RESTConfigFromKubeConfig e kubeconfig = Inr rc \<and>
               NewForConfig e (AddUserAgent rc ''cluster-api-provider-vsphere'') = None \<and>
               createOrUpdateSecret e (AddUserAgent rc ''cluster-api-provider-vsphere'')
                 (minted_secret e w) (minting w) = (Return None, w'))"
  using assms unfolding createKubeadmToken_def minted_secret_def minting_def
  by (auto simp: bind_def return_def panic_def time_Now_def tokenutil_GenerateBootstrapToken_def Let_def
        simp del: One_nat_def
        split: prod.splits if_splits sum.splits option.splits outcome.splits)

lemma createKubeadmToken_effect:
  assumes "createKubeadmToken e kubeconfig w = (r, w')"
  shows "clusters w' = clusters w \<and> machines w' = machines w \<and> logs w' = logs w \<and>
         draws w' = Suc (draws w) \<and> ticks w' \<le> Suc (ticks w) \<and>
         (\<exists>cs. trace w' = trace w @ GenerateToken # cs \<and>
            (\<forall>c\<in>set cs. \<exists>h. c = SecretsCreate h NamespaceSystem (minted_secret e w) \<or>
                              c = SecretsUpdate h NamespaceSystem (minted_secret e w)))"
  using assms unfolding createKubeadmToken_def minted_secret_def minting_def
  by (auto simp: bind_def return_def panic_def time_Now_def tokenutil_GenerateBootstrapToken_def Let_def
        simp del: One_nat_def dest!: createOrUpdateSecret_effect
        split: prod.splits if_splits sum.splits option.splits outcome.splits)

lemma cachedToken_effect:
  assumes "cachedToken e c w = (r, w')"
  shows "(\<exists>x. r = Return x) \<and> clusters w' = clusters w \<and> machines w' = machines w \<and>
         trace w' = trace w \<and> secrets w' = secrets w \<and> draws w' = draws w \<and> logs w' = logs w \<and>
         ticks w \<le> ticks w' \<and> ticks w' \<le> Suc (ticks w)"
  using assms unfolding cachedToken_def
  by (auto simp: bind_def return_def time_Now_def split: option.splits if_splits)

lemma cachedToken_hit:
  assumes "Annotations (cluster_ObjectMeta c) = Some m"
    and "m (KubeadmToken (constants_pkg e)) = Some token"
    and "m (KubeadmTokenExpiryTime (constants_pkg e)) = Some expiry"
    and "time_Parse e expiry = Some t"
    and "KubeadmTokenLeftTime (constants_pkg e) < time_Sub t (clock e (ticks w))"
  shows "cachedToken e c w = (Return (Some token), w\<lparr>ticks := Suc (ticks w)\<rparr>)"
  using assms unfolding cachedToken_def
  by (simp add: bind_def return_def time_Now_def index0_def)

lemma cachedToken_miss:
  assumes "Annotations (cluster_ObjectMeta c) = None \<or>
           (\<exists>m. Annotations (cluster_ObjectMeta c) = Some m \<and>
              (m (KubeadmToken (constants_pkg e)) = None \<or>
               time_Parse e (index0 m (KubeadmTokenExpiryTime (constants_pkg e))) = None \<or>
               (\<exists>t. time_Parse e (index0 m (KubeadmTokenExpiryTime (constants_pkg e))) = Some t \<and>
                    time_Sub t (clock e (ticks w)) \<le> KubeadmTokenLeftTime (constants_pkg e))))"
  shows "fst (cachedToken e c w) = Return None"
  using assms unfolding cachedToken_def
  by (auto simp: bind_def return_def time_Now_def split: option.splits)

lemma GetKubeadmToken_mint:
  assumes obj: "deref (clusters w) cluster = Some c"
    and miss: "cachedToken e c w = (Return None, w1)"
    and cp: "lister pv (length (trace w)) c = Inr ms" "ms \<noteq> []"
    and kc: "k8sClient_Secrets_Get pv (Suc (length (trace w))) (Namespace (cluster_ObjectMeta c))
               (KubeConfigSecretName (constants_pkg e) (UID (cluster_ObjectMeta c))) = Inr ksecret"
    and mint: "createKubeadmToken e (index0 (secret_Data ksecret) (KubeConfigSecretData (constants_pkg e)))
                 (w1\<lparr>trace := trace w @
                    [GetControlPlaneMachines c,
                     SecretsGet (Namespace (cluster_ObjectMeta c))
                       (KubeConfigSecretName (constants_pkg e) (UID (cluster_ObjectMeta c)))]\<rparr>)
               = (Return (tok, None), w4)"
  shows "GetKubeadmToken e pv cluster w = cacheKubeadmToken e pv cluster tok w4"
proof -
  from cachedToken_effect [OF miss]
  have w1: "clusters w1 = clusters w" "trace w1 = trace w" by auto
  show ?thesis
    unfolding GetKubeadmToken_def
    by (simp add: bind_def load_cluster_def nonnil_def return_def obj miss w1 cp kc mint
          GetControlPlaneMachinesForCluster_def GetKubeConfig_def Let_def)
qed

lemma cacheKubeadmToken_effect:
  assumes obj: "deref (clusters w) cluster = Some c"
    and client: "clusterV1alpha1 pv = Some cl"
  shows "fst (cacheKubeadmToken e pv cluster tok w) =
           Return (tok, Clusters_Update cl (length (trace w)) (Namespace (cluster_ObjectMeta c))
                          (cached_cluster e c tok (clock e (ticks w))))"
    and "trace (snd (cacheKubeadmToken e pv cluster tok w)) =
           trace w @ [ClustersUpdate (Namespace (cluster_ObjectMeta c))
                          (cached_cluster e c tok (clock e (ticks w)))]"
    and "clusters (snd (cacheKubeadmToken e pv cluster tok w)) =
           clusters w @ [cached_cluster e c tok (clock e (ticks w))]"
    and "secrets (snd (cacheKubeadmToken e pv cluster tok w)) = secrets w"
    and "ticks (snd (cacheKubeadmToken e pv cluster tok w)) = Suc (ticks w)"
    and "machines (snd (cacheKubeadmToken e pv cluster tok w)) = machines w"
    and "draws (snd (cacheKubeadmToken e pv cluster tok w)) = draws w"
proof -
  obtain a where a: "cluster = Some a" "a < length (clusters w)" "clusters w ! a = c"
    using obj by (auto simp: deref_def split: option.splits if_splits)
  note defs = cacheKubeadmToken_def bind_def return_def panic_def nonnil_def load_cluster_def
    modify_cluster_def Cluster_DeepCopy_def set_annotation_def time_Now_def klog_def
    Clusters_Update_call_def a(1,3) deref_def client cached_cluster_def nth_append
  show "fst (cacheKubeadmToken e pv cluster tok w) =
           Return (tok, Clusters_Update cl (length (trace w)) (Namespace (cluster_ObjectMeta c))
                          (cached_cluster e c tok (clock e (ticks w))))"
    using a(2) by (cases "Annotations (cluster_ObjectMeta c)") (simp_all add: defs)
  show "trace (snd (cacheKubeadmToken e pv cluster tok w)) =
           trace w @ [ClustersUpdate (Namespace (cluster_ObjectMeta c))
                          (cached_cluster e c tok (clock e (ticks w)))]"
    using a(2) by (cases "Annotations (cluster_ObjectMeta c)") (simp_all add: defs)
  show "clusters (snd (cacheKubeadmToken e pv cluster tok w)) =
           clusters w @ [cached_cluster e c tok (clock e (ticks w))]"
    using a(2) by (cases "Annotations (cluster_ObjectMeta c)") (simp_all add: defs)
  show "secrets (snd (cacheKubeadmToken e pv cluster tok w)) = secrets w"
    using a(2) by (cases "Annotations (cluster_ObjectMeta c)") (simp_all add: defs)
  show "ticks (snd (cacheKubeadmToken e pv cluster tok w)) = Suc (ticks w)"
    using a(2) by (cases "Annotations (cluster_ObjectMeta c)") (simp_all add: defs)
  show "machines (snd (cacheKubeadmToken e pv cluster tok w)) = machines w"
    using a(2) by (cases "Annotations (cluster_ObjectMeta c)") (simp_all add: defs)
  show "draws (snd (cacheKubeadmToken e pv cluster tok w)) = draws w"
    using a(2) by (cases "Annotations (cluster_ObjectMeta c)") (simp_all add: defs)
qed

lemma GetControlPlaneMachinesForCluster_effect:
  assumes "GetControlPlaneMachinesForCluster pv p w = (r, w')"
  shows "clusters w' = clusters w \<and> machines w' = machines w \<and> secrets w' = secrets w \<and>
         ticks w' = ticks w \<and> draws w' = draws w \<and> logs w' = logs w"
  using assms
  by (auto simp: GetControlPlaneMachinesForCluster_def bind_def load_cluster_def nonnil_def
        panic_def return_def split: option.splits)

lemma GetKubeConfig_effect:
  assumes "GetKubeConfig e pv p w = (r, w')"
  shows "clusters w' = clusters w \<and> machines w' = machines w \<and> secrets w' = secrets w \<and>
         ticks w' = ticks w \<and> draws w' = draws w \<and> logs w' = logs w"
  using assms
  by (auto simp: GetKubeConfig_def bind_def load_cluster_def nonnil_def
        panic_def return_def Let_def split: option.splits sum.splits)

lemma cacheKubeadmToken_frame:
  "take (length (clusters w)) (clusters (snd (cacheKubeadmToken e pv cluster tok w))) = clusters w \<and>
   machines (snd (cacheKubeadmToken e pv cluster tok w)) = machines w"
  by (auto simp: cacheKubeadmToken_def go_defs split: option.splits if_splits)

lemma keeps_bind: "keeps w0 m \<Longrightarrow> (\<And>x. keeps w0 (f x)) \<Longrightarrow> keeps w0 (bind m f)"
  unfolding keeps_def bind_def
  by (auto split: prod.splits outcome.splits)

lemma keeps_return: "keeps w0 (return x)"
  by (simp add: keeps_def return_def)

lemma keeps_same:
  assumes "\<And>w r w'. m w = (r, w') \<Longrightarrow> clusters w' = clusters w \<and> machines w' = machines w"
  shows "keeps w0 m"
  unfolding keeps_def using assms by (metis prod.collapse)

lemma keeps_cacheKubeadmToken: "keeps w0 (cacheKubeadmToken e pv cluster tok)"
  unfolding keeps_def
proof (intro allI impI)
  fix w :: world
  assume a: "take (length (clusters w0)) (clusters w) = clusters w0 \<and> machines w = machines w0"
  let ?w' = "snd (cacheKubeadmToken e pv cluster tok w)"
  from cacheKubeadmToken_frame [of w e pv cluster tok]
  have f: "take (length (clusters w)) (clusters ?w') = clusters w" "machines ?w' = machines w" by auto
  from a have "length (take (length (clusters w0)) (clusters w)) = length (clusters w0)"
    by simp
  then have le: "length (clusters w0) \<le> length (clusters w)"
    by simp
  have "take (length (clusters w0)) (clusters ?w') =
        take (length (clusters w0)) (take (length (clusters w)) (clusters ?w'))"
    using le by (simp add: min_def)
  with f a show "take (length (clusters w0)) (clusters ?w') = clusters w0 \<and> machines ?w' = machines w0"
    by simp
qed

lemma keeps_load_cluster: "keeps w0 (load_cluster p)"
  by (rule keeps_same) (auto simp: load_cluster_def nonnil_def panic_def return_def split: option.splits)

lemma keeps_cachedToken: "keeps w0 (cachedToken e c)"
  by (rule keeps_same) (drule cachedToken_effect, simp)

lemma keeps_GetControlPlaneMachinesForCluster: "keeps w0 (GetControlPlaneMachinesForCluster pv p)"
  by (rule keeps_same) (drule GetControlPlaneMachinesForCluster_effect, simp)

lemma keeps_GetKubeConfig: "keeps w0 (GetKubeConfig e pv p)"
  by (rule keeps_same) (drule GetKubeConfig_effect, simp)

lemma keeps_createKubeadmToken: "keeps w0 (createKubeadmToken e k)"
  by (rule keeps_same) (drule createKubeadmToken_effect, simp)

lemma keeps_GetKubeadmToken: "keeps w0 (GetKubeadmToken e pv cluster)"
  unfolding GetKubeadmToken_def
  by (auto intro!: keeps_bind keeps_return keeps_cacheKubeadmToken keeps_load_cluster
        keeps_cachedToken keeps_GetControlPlaneMachinesForCluster keeps_GetKubeConfig
        keeps_createKubeadmToken
        split: option.splits sum.splits prod.splits)

lemma GetKubeadmToken_frame:
  "take (length (clusters w)) (clusters (snd (GetKubeadmToken e pv cluster w))) = clusters w \<and>
   machines (snd (GetKubeadmToken e pv cluster w)) = machines w"
  using keeps_GetKubeadmToken [of w e pv cluster] unfolding keeps_def by simp

lemma bootstrap_secret_fields:
  "dom (secret_Data (bootstrap_secret tokenID tokenSecret expiration)) =
     {BootstrapTokenIDKey, BootstrapTokenSecretKey, BootstrapTokenExpirationKey,
      BootstrapTokenUsageAuthentication, BootstrapTokenUsageSigningKey,
      BootstrapTokenExtraGroupsKey, BootstrapTokenDescriptionKey}"
  "secret_Data (bootstrap_secret tokenID tokenSecret expiration) BootstrapTokenIDKey = Some tokenID"
  "secret_Data (bootstrap_secret tokenID tokenSecret expiration) BootstrapTokenSecretKey = Some tokenSecret"
  "secret_Data (bootstrap_secret tokenID tokenSecret expiration) BootstrapTokenExpirationKey = Some expiration"
  "secret_Data (bootstrap_secret tokenID tokenSecret expiration) BootstrapTokenUsageAuthentication = Some ''true''"
  "secret_Data (bootstrap_secret tokenID tokenSecret expiration) BootstrapTokenUsageSigningKey = Some ''true''"
  "secret_Data (bootstrap_secret tokenID tokenSecret expiration) BootstrapTokenExtraGroupsKey =
     Some ''system:bootstrappers:kubeadm:default-node-token''"
  "secret_Data (bootstrap_secret tokenID tokenSecret expiration) BootstrapTokenDescriptionKey =
     Some ''bootstrap token generated by cluster-api-provider-vsphere''"
  by (auto simp: bootstrap_secret_def k8s_defs)

lemma ex_createKubeadmToken:
  "fst (createKubeadmToken ex_env ''https://10.0.0.1:6443'' ex_world) = Return (ex_token, None)"
  "trace (snd (createKubeadmToken ex_env ''https://10.0.0.1:6443'' ex_world)) =
     [GenerateToken, SecretsCreate ''https://10.0.0.1:6443'' ''kube-system'' ex_secret]"
  by (simp_all add: createKubeadmToken_def createOrUpdateSecret_def go_defs ex_defs k8s_defs Let_def
        time_Add_def time_UTC_def)

lemma ex_minted_secret: "minted_secret ex_env ex_world_stored = ex_secret"
  by (simp add: minted_secret_def ex_defs BootstrapTokenIDBytes_def time_Add_def time_UTC_def)

lemmas ex_eval = GetKubeadmToken_def cachedToken_def cacheKubeadmToken_def GetKubeConfig_def
  createKubeadmToken_def createOrUpdateSecret_def index0_def go_defs ex_defs k8s_defs Let_def
  time_Add_def time_UTC_def time_Sub_def maxDuration_def minDuration_def fmt_s_def new_calls_def

lemma bootstrap_secret_name:
  "Name (secret_ObjectMeta (bootstrap_secret tokenID tokenSecret expiration)) =
     BootstrapTokenSecretName tokenID"
  by (simp add: bootstrap_secret_def)

lemma GetKubeadmToken_mint_calls:
  assumes obj: "deref (clusters w) cluster = Some c"
    and miss: "fst (cachedToken e c w) = Return None"
    and cp: "lister pv (length (trace w)) c = Inr ms" "ms \<noteq> []"
    and kc: "k8sClient_Secrets_Get pv (Suc (length (trace w))) (Namespace (cluster_ObjectMeta c))
               (KubeConfigSecretName (constants_pkg e) (UID (cluster_ObjectMeta c))) = Inr ksecret"
    and mint: "createKubeadmToken e (index0 (secret_Data ksecret) (KubeConfigSecretData (constants_pkg e)))
                 ((snd (cachedToken e c w))\<lparr>trace := trace w @
                    [GetControlPlaneMachines c,
                     SecretsGet (Namespace (cluster_ObjectMeta c))
                       (KubeConfigSecretName (constants_pkg e) (UID (cluster_ObjectMeta c)))]\<rparr>)
               = (Return (tok, None), w4)"
    and client: "clusterV1alpha1 pv = Some cl"
  shows "fst (GetKubeadmToken e pv cluster w) =
           Return (tok, Clusters_Update cl (length (trace w4)) (Namespace (cluster_ObjectMeta c))
                          (cached_cluster e c tok (clock e (ticks w4))))"
    and "\<exists>cs. new_calls w (snd (GetKubeadmToken e pv cluster w)) =
           [GetControlPlaneMachines c,
            SecretsGet (Namespace (cluster_ObjectMeta c))
              (KubeConfigSecretName (constants_pkg e) (UID (cluster_ObjectMeta c))),
            GenerateToken] @ cs @
           [ClustersUpdate (Namespace (cluster_ObjectMeta c))
              (cached_cluster e c tok (clock e (ticks w4)))] \<and>
           (\<forall>c\<in>set cs. is_SecretsCreate c \<or> is_SecretsUpdate c)"
    and "secrets (snd (GetKubeadmToken e pv cluster w)) = secrets w4"
    and "tok = fst (GenerateBootstrapToken e (draws w))"
    and "trace (snd (GetKubeadmToken e pv cluster w)) =
           trace w4 @ [ClustersUpdate (Namespace (cluster_ObjectMeta c))
                         (cached_cluster e c tok (clock e (ticks w4)))]"
proof -
  let ?w1 = "snd (cachedToken e c w)"
  let ?w3 = "?w1\<lparr>trace := trace w @
                    [GetControlPlaneMachines c,
                     SecretsGet (Namespace (cluster_ObjectMeta c))
                       (KubeConfigSecretName (constants_pkg e) (UID (cluster_ObjectMeta c)))]\<rparr>"
  have m: "cachedToken e c w = (Return None, ?w1)"
    using miss by (simp add: prod_eq_iff)
  from cachedToken_effect [OF m]
  have w1: "clusters ?w1 = clusters w" "draws ?w1 = draws w" by auto
  from createKubeadmToken_effect [OF mint] obtain cs where
    w4: "clusters w4 = clusters w"
    and t4: "trace w4 = trace ?w3 @ GenerateToken # cs"
    and cs: "\<forall>c\<in>set cs. \<exists>h. c = SecretsCreate h NamespaceSystem (minted_secret e ?w3) \<or>
                              c = SecretsUpdate h NamespaceSystem (minted_secret e ?w3)"
    using w1 by auto
  have obj4: "deref (clusters w4) cluster = Some c"
    using obj w4 by simp
  note run = GetKubeadmToken_mint [OF obj m cp kc mint]
  note eff = cacheKubeadmToken_effect [OF obj4 client, of e tok]
  show "fst (GetKubeadmToken e pv cluster w) =
           Return (tok, Clusters_Update cl (length (trace w4)) (Namespace (cluster_ObjectMeta c))
                          (cached_cluster e c tok (clock e (ticks w4))))"
    unfolding run by (rule eff(1))
  show "secrets (snd (GetKubeadmToken e pv cluster w)) = secrets w4"
    unfolding run by (rule eff(4))
  show "trace (snd (GetKubeadmToken e pv cluster w)) =
           trace w4 @ [ClustersUpdate (Namespace (cluster_ObjectMeta c))
                         (cached_cluster e c tok (clock e (ticks w4)))]"
    unfolding run by (rule eff(2))
  from createKubeadmToken_success [OF mint] w1
  show "tok = fst (GenerateBootstrapToken e (draws w))" by simp
  have "new_calls w (snd (GetKubeadmToken e pv cluster w)) =
           [GetControlPlaneMachines c,
            SecretsGet (Namespace (cluster_ObjectMeta c))
              (KubeConfigSecretName (constants_pkg e) (UID (cluster_ObjectMeta c))),
            GenerateToken] @ cs @
           [ClustersUpdate (Namespace (cluster_ObjectMeta c))
              (cached_cluster e c tok (clock e (ticks w4)))]"
    unfolding run new_calls_def eff(2) t4 by simp
  moreover have "\<forall>c\<in>set cs. is_SecretsCreate c \<or> is_SecretsUpdate c"
    using cs by auto
  ultimately show "\<exists>cs. new_calls w (snd (GetKubeadmToken e pv cluster w)) =
           [GetControlPlaneMachines c,
            SecretsGet (Namespace (cluster_ObjectMeta c))
              (KubeConfigSecretName (constants_pkg e) (UID (cluster_ObjectMeta c))),
            GenerateToken] @ cs @
           [ClustersUpdate (Namespace (cluster_ObjectMeta c))
              (cached_cluster e c tok (clock e (ticks w4)))] \<and>
           (\<forall>c\<in>set cs. is_SecretsCreate c \<or> is_SecretsUpdate c)"
    by blast
qed

lemma filter_store_calls:
  assumes "\<forall>c\<in>set cs. is_SecretsCreate c \<or> is_SecretsUpdate c"
  shows "filter is_GenerateToken cs = []" and "filter is_ClustersUpdate cs = []"
  using assms by (auto simp: filter_empty_conv)

lemma ex_mint:
  assumes "clusters w = [c]" "draws w = 0" "secrets w = Map.empty" "ticks w \<le> 1"
    "apiserver_fault e = (\<lambda>k. None)" "GenerateBootstrapToken e = (\<lambda>k. (ex_token, None))"
    "RESTConfigFromKubeConfig e = (\<lambda>kubeconfig. Inr \<lparr>Host = kubeconfig, UserAgent = []\<rparr>)"
    "NewForConfig e = (\<lambda>config. None)"
  shows "fst (createKubeadmToken e k w) = Return (ex_token, None)"
  using assms
  by (simp add: createKubeadmToken_def createOrUpdateSecret_def go_defs k8s_defs Let_def ex_token_def)

section \<open>The claims\<close>

text \<open>
  C2. For a cluster whose annotations hold a token and an expiry that parses and lies more
  than \<open>KubeadmTokenLeftTime\<close> after the clock reading, \<open>GetKubeadmToken\<close> returns that
  token with a nil error. The world after the call differs from the world before only in
  the count of clock readings: no call has been added to the trace, and the secrets of
  the target cluster and the objects in memory are as before.
\<close>

theorem cached_token_is_returned_without_calls:
  assumes "deref (clusters w) cluster = Some c"
    and "Annotations (cluster_ObjectMeta c) = Some m"
    and "m (KubeadmToken (constants_pkg e)) = Some token"
    and "m (KubeadmTokenExpiryTime (constants_pkg e)) = Some expiry"
    and "time_Parse e expiry = Some t"
    and "KubeadmTokenLeftTime (constants_pkg e) < time_Sub t (clock e (ticks w))"
  shows "GetKubeadmToken e pv cluster w = (Return (token, None), w\<lparr>ticks := Suc (ticks w)\<rparr>) \<and>
         new_calls w (snd (GetKubeadmToken e pv cluster w)) = [] \<and>
         secrets (snd (GetKubeadmToken e pv cluster w)) = secrets w \<and>
         clusters (snd (GetKubeadmToken e pv cluster w)) = clusters w"
proof -
  have "GetKubeadmToken e pv cluster w = (Return (token, None), w\<lparr>ticks := Suc (ticks w)\<rparr>)"
    unfolding GetKubeadmToken_def
    by (simp add: bind_def load_cluster_def nonnil_def return_def assms(1)
          cachedToken_hit [OF assms(2-6)])
  then show ?thesis by (simp add: new_calls_def)
qed

theorem cached_token_is_returned_without_calls_witness:
  "GetKubeadmToken ex_env ex_pv (Some 0) ex_world_cached =
     (Return (''uvwxyz.fedcba9876543210'', None), ex_world_cached\<lparr>ticks := 1\<rparr>) \<and>
   new_calls ex_world_cached (snd (GetKubeadmToken ex_env ex_pv (Some 0) ex_world_cached)) = []"
proof -
  have 1: "deref (clusters ex_world_cached) (Some 0) = Some ex_cluster_cached"
    by (simp add: deref_def ex_world_cached_def ex_world_def)
  have 2: "Annotations (cluster_ObjectMeta ex_cluster_cached) =
             Some [''k8s-token'' \<mapsto> ''uvwxyz.fedcba9876543210'',
                   ''k8s-token-expiry-time'' \<mapsto> ''2019-03-01T01:00:00Z'']"
    by (simp add: ex_cluster_cached_def)
  have 3: "[''k8s-token'' \<mapsto> ''uvwxyz.fedcba9876543210'',
            ''k8s-token-expiry-time'' \<mapsto> ''2019-03-01T01:00:00Z'']
             (KubeadmToken (constants_pkg ex_env)) = Some ''uvwxyz.fedcba9876543210''"
    by (simp add: ex_env_def ex_constants_def)
  have 4: "[''k8s-token'' \<mapsto> ''uvwxyz.fedcba9876543210'',
            ''k8s-token-expiry-time'' \<mapsto> ''2019-03-01T01:00:00Z'']
             (KubeadmTokenExpiryTime (constants_pkg ex_env)) = Some ''2019-03-01T01:00:00Z''"
    by (simp add: ex_env_def ex_constants_def)
  have 5: "time_Parse ex_env ''2019-03-01T01:00:00Z'' =
             Some \<lparr>nanos = 1551402000000000000, loc = UTC\<rparr>"
    by (simp add: ex_env_def ex_Parse_def)
  have 6: "KubeadmTokenLeftTime (constants_pkg ex_env)
             < time_Sub \<lparr>nanos = 1551402000000000000, loc = UTC\<rparr>
                 (clock ex_env (ticks ex_world_cached))"
    by (simp add: ex_env_def ex_constants_def ex_now_def time_Sub_def maxDuration_def
          minDuration_def Let_def)
  from cached_token_is_returned_without_calls [OF 1 2 3 4 5 6, of ex_pv]
  show ?thesis by (simp add: ex_world_cached_def ex_world_def new_calls_def)
qed

text \<open>
  C6, as amended. \<open>HandleMachineError\<close> and \<open>HandleClusterError\<close>, given a machine or
  cluster, an error and an event action, return that error when the provisioner holds an
  event recorder or the event action is empty: whatever the provisioner holds as a client,
  and whatever the status update answers. Without a client no status update is issued.
\<close>

theorem HandleError_returns_the_error:
  assumes "deref (machines w) machine = Some m" and "deref (clusters w) cluster = Some c"
    and "eventRecorder pv \<noteq> None \<or> eventAction = []"
  shows
    "fst (HandleMachineError pv machine (Some merr) eventAction w) = Return (Some (MachineErr merr)) \<and>
     fst (HandleClusterError pv cluster (Some cerr) eventAction w) = Return (Some (ClusterErr cerr)) \<and>
     (clusterV1alpha1 pv = None \<longrightarrow>
        filter is_MachinesUpdateStatus
          (new_calls w (snd (HandleMachineError pv machine (Some merr) eventAction w))) = [] \<and>
        filter is_ClustersUpdateStatus
          (new_calls w (snd (HandleClusterError pv cluster (Some cerr) eventAction w))) = [])"
  using assms
  by (auto simp: HandleMachineError_def HandleClusterError_def go_defs new_calls_def Let_def
        split: option.splits if_splits)

theorem HandleError_returns_the_error_witness:
  "fst (HandleMachineError ex_pv_conflict (Some 0) (Some ex_machine_error) ''Create'' ex_world)
     = Return (Some (MachineErr ex_machine_error)) \<and>
   fst (HandleClusterError ex_pv_noclient (Some 0) (Some ex_cluster_error) ''Delete'' ex_world)
     = Return (Some (ClusterErr ex_cluster_error)) \<and>
   filter is_ClustersUpdateStatus
     (new_calls ex_world
        (snd (HandleClusterError ex_pv_noclient (Some 0) (Some ex_cluster_error) ''Delete'' ex_world)))
     = [] \<and>
   fst (HandleMachineError ex_pv_norecorder (Some 0) (Some ex_machine_error) [] ex_world)
     = Return (Some (MachineErr ex_machine_error))"
proof -
  have m: "deref (machines ex_world) (Some 0) = Some ex_machine"
    by (simp add: deref_def ex_world_def)
  have c: "deref (clusters ex_world) (Some 0) = Some ex_cluster"
    by (simp add: deref_def ex_world_def)
  have n: "clusterV1alpha1 ex_pv_noclient = None"
    by (simp add: ex_pv_noclient_def ex_pv_def)
  have r1: "eventRecorder ex_pv_conflict \<noteq> None \<or> ''Create'' = []"
    by (simp add: ex_pv_conflict_def ex_pv_def)
  have r2: "eventRecorder ex_pv_noclient \<noteq> None \<or> ''Delete'' = []"
    by (simp add: ex_pv_noclient_def ex_pv_def)
  have r3: "eventRecorder ex_pv_norecorder \<noteq> None \<or> ([] :: string) = []"
    by simp
  from HandleError_returns_the_error [OF m c r1, where merr = ex_machine_error]
       HandleError_returns_the_error [OF m c r2, where cerr = ex_cluster_error] n
       HandleError_returns_the_error [OF m c r3, where merr = ex_machine_error]
  show ?thesis by simp
qed

text \<open>
  C6, as stated, fails. With an event action that is not empty and a provisioner without
  an event recorder, the call of \<open>Eventf\<close> panics: neither function returns.
\<close>

theorem nil_recorder_panics:
  "fst (HandleMachineError ex_pv_norecorder (Some 0) (Some ex_machine_error) ''Create'' ex_world)
     = Panic \<and>
   fst (HandleClusterError ex_pv_norecorder (Some 0) (Some ex_cluster_error) ''Create'' ex_world)
     = Panic"
  by (simp add: HandleMachineError_def HandleClusterError_def go_defs ex_defs Let_def)

text \<open>
  C8. Neither \<open>GetKubeadmToken\<close> nor \<open>HandleMachineError\<close> nor \<open>HandleClusterError\<close>
  changes an object that was in memory when it was called: after the call, on every path,
  the heap of clusters and the heap of machines begin with the heaps of before. What the
  functions write, they write on the copy that \<open>DeepCopy\<close> has added at the end.
\<close>

theorem callers_objects_are_not_changed:
  "take (length (clusters w)) (clusters (snd (GetKubeadmToken e pv cluster w))) = clusters w \<and>
   machines (snd (GetKubeadmToken e pv cluster w)) = machines w \<and>
   take (length (machines w)) (machines (snd (HandleMachineError pv machine merr eventAction w)))
     = machines w \<and>
   clusters (snd (HandleMachineError pv machine merr eventAction w)) = clusters w \<and>
   take (length (clusters w)) (clusters (snd (HandleClusterError pv cluster cerr eventAction w)))
     = clusters w \<and>
   machines (snd (HandleClusterError pv cluster cerr eventAction w)) = machines w"
proof -
  have "take (length (machines w)) (machines (snd (HandleMachineError pv machine merr eventAction w)))
          = machines w"
    by (auto simp: HandleMachineError_def go_defs Let_def split: option.splits if_splits)
  moreover have "clusters (snd (HandleMachineError pv machine merr eventAction w)) = clusters w"
    by (auto simp: HandleMachineError_def go_defs Let_def split: option.splits if_splits)
  moreover have "take (length (clusters w)) (clusters (snd (HandleClusterError pv cluster cerr eventAction w)))
          = clusters w"
    by (auto simp: HandleClusterError_def go_defs Let_def split: option.splits if_splits)
  moreover have "machines (snd (HandleClusterError pv cluster cerr eventAction w)) = machines w"
    by (auto simp: HandleClusterError_def go_defs Let_def split: option.splits if_splits)
  ultimately show ?thesis using GetKubeadmToken_frame [of w e pv cluster] by simp
qed

text \<open>
  C4. When the token has been generated and the client built, \<open>createKubeadmToken\<close>
  first creates the secret. It then updates it, once and with the same secret, exactly
  when the create has failed with the reason AlreadyExists. It returns the token with a
  nil error when the create succeeds, or when the create reports AlreadyExists and the
  update succeeds. Every other error of the create, and every error of the update,
  reaches the caller as an error that carries its message behind a prefix.
\<close>

theorem create_then_update_on_conflict:
  assumes gen: "GenerateBootstrapToken e (draws w) = (tok, None)"
               "BootstrapTokenIDBytes + 1 \<le> length tok"
    and rc: "RESTConfigFromKubeConfig e kubeconfig = Inr rc"
            "NewForConfig e (AddUserAgent rc ''cluster-api-provider-vsphere'') = None"
    and cr: "Secrets_Create e (AddUserAgent rc ''cluster-api-provider-vsphere'') NamespaceSystem
               (minted_secret e w) (minting w) = (Return cerr, w3)"
    and up: "Secrets_Update e (AddUserAgent rc ''cluster-api-provider-vsphere'') NamespaceSystem
               (minted_secret e w) w3 = (Return uerr, w4)"
  shows "new_calls w (snd (createKubeadmToken e kubeconfig w)) =
           [GenerateToken, SecretsCreate (Host rc) NamespaceSystem (minted_secret e w)] @
           (case cerr of
              None \<Rightarrow> []
            | Some ce \<Rightarrow>
                if IsAlreadyExists ce
                then [SecretsUpdate (Host rc) NamespaceSystem (minted_secret e w)] else []) \<and>
         fst (createKubeadmToken e kubeconfig w) =
           Return (case cerr of
                     None \<Rightarrow> (tok, None)
                   | Some ce \<Rightarrow>
                       if IsAlreadyExists ce
                       then (case uerr of
                               None \<Rightarrow> (tok, None)
                             | Some ue \<Rightarrow> ([], Some (errorString
                                 (''unable to update bootstrap token secret: '' @ Error ue))))
                       else ([], Some (errorString
                                 (''unable to create bootstrap token secret: '' @ Error ce))))"
proof -
  from Secrets_Create_effect [OF cr]
  have t3: "trace w3 = trace w @ [GenerateToken, SecretsCreate (Host rc) NamespaceSystem (minted_secret e w)]"
    by (simp add: minting_def AddUserAgent_def)
  from Secrets_Update_effect [OF up] t3
  have t4: "trace w4 = trace w @ [GenerateToken, SecretsCreate (Host rc) NamespaceSystem (minted_secret e w),
                                  SecretsUpdate (Host rc) NamespaceSystem (minted_secret e w)]"
    by (simp add: AddUserAgent_def)
  show ?thesis
    unfolding createKubeadmToken_unfold [OF gen rc] createOrUpdateSecret_cases [OF cr up]
    by (simp add: new_calls_def t3 t4 split: option.splits)
qed

theorem create_then_update_on_conflict_witness:
  "new_calls ex_world_stored (snd (createKubeadmToken ex_env ''https://10.0.0.1:6443'' ex_world_stored)) =
     [GenerateToken,
      SecretsCreate ''https://10.0.0.1:6443'' NamespaceSystem ex_secret,
      SecretsUpdate ''https://10.0.0.1:6443'' NamespaceSystem ex_secret] \<and>
   fst (createKubeadmToken ex_env ''https://10.0.0.1:6443'' ex_world_stored) = Return (ex_token, None)"
proof -
  let ?rc = "\<lparr>Host = ''https://10.0.0.1:6443'', UserAgent = []\<rparr>"
  let ?cfg = "AddUserAgent ?rc ''cluster-api-provider-vsphere''"
  let ?ce = "StatusError StatusReasonAlreadyExists (''bootstrap-token-abcdef already exists'')"
  let ?w3 = "snd (Secrets_Create ex_env ?cfg NamespaceSystem ex_secret (minting ex_world_stored))"
  let ?w4 = "snd (Secrets_Update ex_env ?cfg NamespaceSystem ex_secret ?w3)"
  have 1: "GenerateBootstrapToken ex_env (draws ex_world_stored) = (ex_token, None)"
    by (simp add: ex_env_def)
  have 2: "BootstrapTokenIDBytes + 1 \<le> length ex_token"
    by (simp add: ex_token_def BootstrapTokenIDBytes_def)
  have 3: "RESTConfigFromKubeConfig ex_env ''https://10.0.0.1:6443'' = Inr ?rc"
    by (simp add: ex_env_def)
  have 4: "NewForConfig ex_env ?cfg = None"
    by (simp add: ex_env_def)
  have 5: "Secrets_Create ex_env ?cfg NamespaceSystem (minted_secret ex_env ex_world_stored)
             (minting ex_world_stored) = (Return (Some ?ce), ?w3)"
    unfolding ex_minted_secret
    by (simp add: prod_eq_iff Secrets_Create_def Let_def minting_def ex_world_stored_def ex_world_def
          ex_env_def ex_secret_def bootstrap_secret_def k8s_defs)
  have 6: "Secrets_Update ex_env ?cfg NamespaceSystem (minted_secret ex_env ex_world_stored) ?w3
             = (Return None, ?w4)"
    unfolding ex_minted_secret
    by (simp add: prod_eq_iff Secrets_Create_def Secrets_Update_def Let_def minting_def
          ex_world_stored_def ex_world_def ex_env_def ex_secret_def bootstrap_secret_def k8s_defs)
  from create_then_update_on_conflict [OF 1 2 3 4 5 6]
  show ?thesis by (simp add: ex_minted_secret StatusReasonAlreadyExists_def)
qed

text \<open>
  C5. After a run of \<open>createKubeadmToken\<close> that has persisted a secret, a second run whose
  token has the same identifier and the same secret half, and whose expiration is the same
  string, leaves the secrets of the target cluster as they were: the record under the
  identifier is the secret of the first run. When the API server raises no fault of its
  own, the create of the second run meets the record, the update writes the same secret
  again, and the run returns its token.
\<close>

theorem persisting_twice_is_idempotent:
  assumes first: "createKubeadmToken e kubeconfig w0 = (Return (tok, None), w1)"
    and second_draw: "GenerateBootstrapToken e (draws w1) = (tok2, None)"
                     "BootstrapTokenIDBytes + 1 \<le> length tok2"
    and same_identifier: "take BootstrapTokenIDBytes tok2 = take BootstrapTokenIDBytes tok"
    and same_secret: "drop (BootstrapTokenIDBytes + 1) tok2 = drop (BootstrapTokenIDBytes + 1) tok"
    and same_expiration:
      "time_Format e (time_Add (time_UTC (clock e (ticks w1))) (KubeadmTokenTtl (constants_pkg e))) =
       time_Format e (time_Add (time_UTC (clock e (ticks w0))) (KubeadmTokenTtl (constants_pkg e)))"
  shows "secrets (snd (createKubeadmToken e kubeconfig w1)) = secrets w1 \<and>
         (\<exists>h. secrets w1 (h, NamespaceSystem, Name (secret_ObjectMeta (minted_secret e w0))) =
                 Some (minted_secret e w0) \<and>
              (apiserver_fault e (Suc (length (trace w1))) = None \<and>
               apiserver_fault e (Suc (Suc (length (trace w1)))) = None \<longrightarrow>
                 fst (createKubeadmToken e kubeconfig w1) = Return (tok2, None) \<and>
                 new_calls w1 (snd (createKubeadmToken e kubeconfig w1)) =
                   [GenerateToken,
                    SecretsCreate h NamespaceSystem (minted_secret e w0),
                    SecretsUpdate h NamespaceSystem (minted_secret e w0)]))"
proof -
  let ?ua = "''cluster-api-provider-vsphere''"
  from createKubeadmToken_success [OF first] obtain rc where
    gen: "GenerateBootstrapToken e (draws w0) = (tok, None)" "BootstrapTokenIDBytes + 1 \<le> length tok"
    and rc: "RESTConfigFromKubeConfig e kubeconfig = Inr rc" "NewForConfig e (AddUserAgent rc ?ua) = None"
    and cu: "createOrUpdateSecret e (AddUserAgent rc ?ua) (minted_secret e w0) (minting w0) = (Return None, w1)"
    by blast
  let ?s = "minted_secret e w0"
  let ?cfg = "AddUserAgent rc ?ua"
  let ?k = "(Host ?cfg, NamespaceSystem, Name (secret_ObjectMeta ?s))"
  have same: "minted_secret e w1 = ?s"
    by (simp add: minted_secret_def second_draw(1) gen(1) same_identifier same_secret
          same_expiration del: One_nat_def)
  from createOrUpdateSecret_success [OF cu]
  have stored: "secrets w1 ?k = Some ?s" by simp
  then have stored': "secrets (minting w1) ?k = Some ?s" by (simp add: minting_def)
  note second = createKubeadmToken_unfold [OF second_draw rc, unfolded same]
  obtain r w2 where cu2: "createOrUpdateSecret e ?cfg ?s (minting w1) = (r, w2)"
    by (cases "createOrUpdateSecret e ?cfg ?s (minting w1)")
  from createOrUpdateSecret_present [OF stored', of e] cu2
  have s2: "secrets w2 = secrets w1" by (simp add: minting_def)
  have a: "secrets (snd (createKubeadmToken e kubeconfig w1)) = secrets w1"
    unfolding second cu2 using s2 by (simp split: outcome.splits option.splits)
  have b: "fst (createKubeadmToken e kubeconfig w1) = Return (tok2, None) \<and>
           new_calls w1 (snd (createKubeadmToken e kubeconfig w1)) =
             [GenerateToken, SecretsCreate (Host ?cfg) NamespaceSystem ?s,
              SecretsUpdate (Host ?cfg) NamespaceSystem ?s]"
    if nf: "apiserver_fault e (Suc (length (trace w1))) = None"
           "apiserver_fault e (Suc (Suc (length (trace w1)))) = None"
  proof -
    have "apiserver_fault e (length (trace (minting w1))) = None"
         "apiserver_fault e (Suc (length (trace (minting w1)))) = None"
      using nf by (simp_all add: minting_def)
    from createOrUpdateSecret_fallback [OF stored' this] cu2
    have "r = Return None"
      "trace w2 = trace (minting w1) @ [SecretsCreate (Host ?cfg) NamespaceSystem ?s,
                                         SecretsUpdate (Host ?cfg) NamespaceSystem ?s]"
      by simp_all
    then show ?thesis
      unfolding second cu2 by (simp add: new_calls_def minting_def)
  qed
  have c: "apiserver_fault e (Suc (length (trace w1))) = None \<and>
           apiserver_fault e (Suc (Suc (length (trace w1)))) = None \<longrightarrow>
           fst (createKubeadmToken e kubeconfig w1) = Return (tok2, None) \<and>
           new_calls w1 (snd (createKubeadmToken e kubeconfig w1)) =
             [GenerateToken, SecretsCreate (Host ?cfg) NamespaceSystem ?s,
              SecretsUpdate (Host ?cfg) NamespaceSystem ?s]"
  proof
    assume nf: "apiserver_fault e (Suc (length (trace w1))) = None \<and>
                apiserver_fault e (Suc (Suc (length (trace w1)))) = None"
    from b [OF conjunct1 [OF nf] conjunct2 [OF nf]]
    show "fst (createKubeadmToken e kubeconfig w1) = Return (tok2, None) \<and>
           new_calls w1 (snd (createKubeadmToken e kubeconfig w1)) =
             [GenerateToken, SecretsCreate (Host ?cfg) NamespaceSystem ?s,
              SecretsUpdate (Host ?cfg) NamespaceSystem ?s]" .
  qed
  show ?thesis
    by (rule conjI [OF a]) (rule exI [of _ "Host ?cfg"], rule conjI [OF stored c])
qed

theorem persisting_twice_is_idempotent_witness:
  "clock ex_env_ticking (ticks (snd (createKubeadmToken ex_env_ticking ''https://10.0.0.1:6443'' ex_world)))
     \<noteq> clock ex_env_ticking (ticks ex_world) \<and>
   secrets (snd (createKubeadmToken ex_env_ticking ''https://10.0.0.1:6443''
             (snd (createKubeadmToken ex_env_ticking ''https://10.0.0.1:6443'' ex_world))))
     = secrets (snd (createKubeadmToken ex_env_ticking ''https://10.0.0.1:6443'' ex_world)) \<and>
   fst (createKubeadmToken ex_env_ticking ''https://10.0.0.1:6443''
             (snd (createKubeadmToken ex_env_ticking ''https://10.0.0.1:6443'' ex_world)))
     = Return (ex_token, None)"
proof -
  let ?w1 = "snd (createKubeadmToken ex_env_ticking ''https://10.0.0.1:6443'' ex_world)"
  have "fst (createKubeadmToken ex_env_ticking ''https://10.0.0.1:6443'' ex_world)
          = Return (ex_token, None)"
    by (rule ex_mint [of _ ex_cluster]) (simp_all add: ex_env_ticking_def ex_env_def ex_world_def)
  then have 1: "createKubeadmToken ex_env_ticking ''https://10.0.0.1:6443'' ex_world
                  = (Return (ex_token, None), ?w1)"
    by (simp add: prod_eq_iff)
  have t: "ticks ?w1 = Suc 0"
    by (simp add: createKubeadmToken_def createOrUpdateSecret_def go_defs k8s_defs Let_def
          ex_env_ticking_def ex_env_def ex_world_def ex_token_def)
  have 2: "GenerateBootstrapToken ex_env_ticking (draws ?w1) = (ex_token, None)"
    by (simp add: ex_env_ticking_def ex_env_def)
  have 3: "BootstrapTokenIDBytes + 1 \<le> length ex_token"
    by (simp add: ex_token_def BootstrapTokenIDBytes_def)
  have 4: "time_Format ex_env_ticking
             (time_Add (time_UTC (clock ex_env_ticking (ticks ?w1)))
                (KubeadmTokenTtl (constants_pkg ex_env_ticking))) =
           time_Format ex_env_ticking
             (time_Add (time_UTC (clock ex_env_ticking (ticks ex_world)))
                (KubeadmTokenTtl (constants_pkg ex_env_ticking)))"
    unfolding t
    by (simp add: ex_env_ticking_def ex_env_def ex_constants_def ex_Format_seconds_def ex_world_def
          time_Add_def time_UTC_def)
  have moved: "clock ex_env_ticking (ticks ?w1) \<noteq> clock ex_env_ticking (ticks ex_world)"
    unfolding t by (simp add: ex_env_ticking_def ex_env_def ex_world_def)
  have nf: "apiserver_fault ex_env_ticking k = None" for k
    by (simp add: ex_env_ticking_def ex_env_def)
  from persisting_twice_is_idempotent [OF 1 2 3 refl refl 4] moved show ?thesis
    by (auto simp: nf)
qed

text \<open>
  C7. Every secret that \<open>createKubeadmToken\<close> sends to the store has exactly the seven
  keys of a bootstrap token: the identifier and the secret half of the generated token,
  the expiry, the two usage flags set to \<open>true\<close>, the default group and the fixed
  description. The expiry is the RFC3339 rendering of the time, in UTC, that lies
  \<open>KubeadmTokenTtl\<close> after the clock reading.
\<close>

theorem credential_record_fields:
  "\<forall>c \<in> set (new_calls w (snd (createKubeadmToken e kubeconfig w))).
     \<forall>h ns s. c = SecretsCreate h ns s \<or> c = SecretsUpdate h ns s \<longrightarrow>
       dom (secret_Data s) =
         {BootstrapTokenIDKey, BootstrapTokenSecretKey, BootstrapTokenExpirationKey,
          BootstrapTokenUsageAuthentication, BootstrapTokenUsageSigningKey,
          BootstrapTokenExtraGroupsKey, BootstrapTokenDescriptionKey} \<and>
       secret_Data s BootstrapTokenIDKey =
         Some (take BootstrapTokenIDBytes (fst (GenerateBootstrapToken e (draws w)))) \<and>
       secret_Data s BootstrapTokenSecretKey =
         Some (drop (BootstrapTokenIDBytes + 1) (fst (GenerateBootstrapToken e (draws w)))) \<and>
       secret_Data s BootstrapTokenExpirationKey =
         Some (time_Format e
                 \<lparr>nanos = nanos (clock e (ticks w)) + KubeadmTokenTtl (constants_pkg e), loc = UTC\<rparr>) \<and>
       secret_Data s BootstrapTokenUsageAuthentication = Some ''true'' \<and>
       secret_Data s BootstrapTokenUsageSigningKey = Some ''true'' \<and>
       secret_Data s BootstrapTokenExtraGroupsKey =
         Some ''system:bootstrappers:kubeadm:default-node-token'' \<and>
       secret_Data s BootstrapTokenDescriptionKey =
         Some ''bootstrap token generated by cluster-api-provider-vsphere''"
proof (intro ballI allI impI)
  fix c h ns s
  assume c: "c \<in> set (new_calls w (snd (createKubeadmToken e kubeconfig w)))"
    and s: "c = SecretsCreate h ns s \<or> c = SecretsUpdate h ns s"
  have "createKubeadmToken e kubeconfig w =
          (fst (createKubeadmToken e kubeconfig w), snd (createKubeadmToken e kubeconfig w))"
    by simp
  from createKubeadmToken_effect [OF this] obtain cs where
    cs: "trace (snd (createKubeadmToken e kubeconfig w)) = trace w @ GenerateToken # cs"
        "\<forall>c\<in>set cs. \<exists>h. c = SecretsCreate h NamespaceSystem (minted_secret e w) \<or>
                          c = SecretsUpdate h NamespaceSystem (minted_secret e w)"
    by blast
  from c cs(1) have "c = GenerateToken \<or> c \<in> set cs" by (simp add: new_calls_def)
  with s cs(2) have eq: "s = minted_secret e w" by auto
  have t: "time_Add (time_UTC (clock e (ticks w))) (KubeadmTokenTtl (constants_pkg e)) =
           \<lparr>nanos = nanos (clock e (ticks w)) + KubeadmTokenTtl (constants_pkg e), loc = UTC\<rparr>"
    by (simp add: time_Add_def time_UTC_def)
  show "dom (secret_Data s) =
         {BootstrapTokenIDKey, BootstrapTokenSecretKey, BootstrapTokenExpirationKey,
          BootstrapTokenUsageAuthentication, BootstrapTokenUsageSigningKey,
          BootstrapTokenExtraGroupsKey, BootstrapTokenDescriptionKey} \<and>
       secret_Data s BootstrapTokenIDKey =
         Some (take BootstrapTokenIDBytes (fst (GenerateBootstrapToken e (draws w)))) \<and>
       secret_Data s BootstrapTokenSecretKey =
         Some (drop (BootstrapTokenIDBytes + 1) (fst (GenerateBootstrapToken e (draws w)))) \<and>
       secret_Data s BootstrapTokenExpirationKey =
         Some (time_Format e
                 \<lparr>nanos = nanos (clock e (ticks w)) + KubeadmTokenTtl (constants_pkg e), loc = UTC\<rparr>) \<and>
       secret_Data s BootstrapTokenUsageAuthentication = Some ''true'' \<and>
       secret_Data s BootstrapTokenUsageSigningKey = Some ''true'' \<and>
       secret_Data s BootstrapTokenExtraGroupsKey =
         Some ''system:bootstrappers:kubeadm:default-node-token'' \<and>
       secret_Data s BootstrapTokenDescriptionKey =
         Some ''bootstrap token generated by cluster-api-provider-vsphere''"
    unfolding eq minted_secret_def t
    by (simp only: bootstrap_secret_fields simp_thms)
qed

theorem credential_record_fields_witness:
  "SecretsCreate ''https://10.0.0.1:6443'' ''kube-system'' ex_secret
     \<in> set (new_calls ex_world (snd (createKubeadmToken ex_env ''https://10.0.0.1:6443'' ex_world))) \<and>
   dom (secret_Data ex_secret) =
     {BootstrapTokenIDKey, BootstrapTokenSecretKey, BootstrapTokenExpirationKey,
      BootstrapTokenUsageAuthentication, BootstrapTokenUsageSigningKey,
      BootstrapTokenExtraGroupsKey, BootstrapTokenDescriptionKey} \<and>
   secret_Data ex_secret BootstrapTokenIDKey = Some ''abcdef'' \<and>
   secret_Data ex_secret BootstrapTokenSecretKey = Some ''0123456789abcdef'' \<and>
   secret_Data ex_secret BootstrapTokenExpirationKey = Some ''2019-03-01T00:10:00Z'' \<and>
   secret_Data ex_secret BootstrapTokenUsageAuthentication = Some ''true'' \<and>
   secret_Data ex_secret BootstrapTokenUsageSigningKey = Some ''true''"
proof -
  have m: "SecretsCreate ''https://10.0.0.1:6443'' ''kube-system'' ex_secret
     \<in> set (new_calls ex_world (snd (createKubeadmToken ex_env ''https://10.0.0.1:6443'' ex_world)))"
    by (simp add: new_calls_def ex_createKubeadmToken(2)) (simp add: ex_world_def)
  have v: "take BootstrapTokenIDBytes (fst (GenerateBootstrapToken ex_env (draws ex_world))) = ''abcdef''"
    "drop (BootstrapTokenIDBytes + 1) (fst (GenerateBootstrapToken ex_env (draws ex_world))) = ''0123456789abcdef''"
    "time_Format ex_env
       \<lparr>nanos = nanos (clock ex_env (ticks ex_world)) + KubeadmTokenTtl (constants_pkg ex_env), loc = UTC\<rparr>
      = ''2019-03-01T00:10:00Z''"
    by (simp_all add: ex_defs BootstrapTokenIDBytes_def)
  from credential_record_fields [of ex_world ex_env "''https://10.0.0.1:6443''", THEN bspec, OF m,
         THEN spec, THEN spec, THEN spec, THEN mp, OF disjI1, OF refl] m v
  show ?thesis by simp
qed

text \<open>
  C9. When the token generator returns an error or an empty token, \<open>createKubeadmToken\<close>
  returns the error \<open>unable to create kubeadm token\<close> and an empty token; it has called
  nothing but the generator and the secrets of the target cluster are as before. When
  \<open>createKubeadmToken\<close> returns a token with a nil error, the token is not empty.
\<close>

theorem generation_failure_is_an_error:
  "(snd (GenerateBootstrapToken e (draws w)) \<noteq> None \<or> fst (GenerateBootstrapToken e (draws w)) = [] \<longrightarrow>
      fst (createKubeadmToken e kubeconfig w) =
        Return ([], Some (errorString (''unable to create kubeadm token: '' @
                            fmt_s (snd (GenerateBootstrapToken e (draws w)))))) \<and>
      new_calls w (snd (createKubeadmToken e kubeconfig w)) = [GenerateToken] \<and>
      secrets (snd (createKubeadmToken e kubeconfig w)) = secrets w) \<and>
   (createKubeadmToken e kubeconfig w = (Return (tok, None), w') \<longrightarrow> tok \<noteq> [])"
proof (intro conjI impI)
  assume "createKubeadmToken e kubeconfig w = (Return (tok, None), w')"
  from createKubeadmToken_success [OF this] show "tok \<noteq> []" by auto
next
  assume a: "snd (GenerateBootstrapToken e (draws w)) \<noteq> None \<or> fst (GenerateBootstrapToken e (draws w)) = []"
  obtain token err where g: "GenerateBootstrapToken e (draws w) = (token, err)"
    by (cases "GenerateBootstrapToken e (draws w)")
  with a have f: "err \<noteq> None \<or> token = []" by simp
  have r: "createKubeadmToken e kubeconfig w =
        (Return ([], Some (errorString (''unable to create kubeadm token: '' @ fmt_s err))),
         w\<lparr>draws := Suc (draws w), trace := trace w @ [GenerateToken]\<rparr>)"
    unfolding createKubeadmToken_def using f
    by (simp add: bind_def tokenutil_GenerateBootstrapToken_def g return_def)
  show "fst (createKubeadmToken e kubeconfig w) =
        Return ([], Some (errorString (''unable to create kubeadm token: '' @
                            fmt_s (snd (GenerateBootstrapToken e (draws w))))))"
    by (simp add: r g)
  show "new_calls w (snd (createKubeadmToken e kubeconfig w)) = [GenerateToken]"
    by (simp add: r new_calls_def)
  show "secrets (snd (createKubeadmToken e kubeconfig w)) = secrets w"
    by (simp add: r)
qed

theorem generation_failure_is_an_error_witness:
  "fst (createKubeadmToken ex_env_norandom ''https://10.0.0.1:6443'' ex_world) =
     Return ([], Some (errorString ''unable to create kubeadm token: unexpected EOF'')) \<and>
   new_calls ex_world (snd (createKubeadmToken ex_env_norandom ''https://10.0.0.1:6443'' ex_world))
     = [GenerateToken] \<and>
   fst (createKubeadmToken ex_env ''https://10.0.0.1:6443'' ex_world) = Return (ex_token, None) \<and>
   ex_token \<noteq> []"
proof -
  have 1: "snd (GenerateBootstrapToken ex_env_norandom (draws ex_world)) \<noteq> None \<or>
           fst (GenerateBootstrapToken ex_env_norandom (draws ex_world)) = []"
    by (simp add: ex_env_norandom_def ex_env_def)
  have 2: "createKubeadmToken ex_env ''https://10.0.0.1:6443'' ex_world =
           (Return (ex_token, None), snd (createKubeadmToken ex_env ''https://10.0.0.1:6443'' ex_world))"
    using ex_createKubeadmToken(1) by (simp add: prod_eq_iff)
  have 3: "fmt_s (snd (GenerateBootstrapToken ex_env_norandom (draws ex_world))) = ''unexpected EOF''"
    by (simp add: ex_env_norandom_def ex_env_def fmt_s_def)
  from generation_failure_is_an_error
         [of ex_env_norandom ex_world "''https://10.0.0.1:6443''", THEN conjunct1, rule_format, OF 1]
       generation_failure_is_an_error
         [of ex_env ex_world "''https://10.0.0.1:6443''" ex_token, THEN conjunct2, rule_format, OF 2]
       ex_createKubeadmToken(1) 3
  show ?thesis by simp
qed

text \<open>
  C1. The claim is that \<open>GetKubeadmToken\<close> returns the new token with a nil error when
  the token has been generated and persisted and only the update of the cluster fails.
  In the run below the secret is in the store of the target cluster and the update of the
  cluster is refused with a conflict: the failure is logged, and \<open>GetKubeadmToken\<close>
  returns the token together with the error of the update.
\<close>

theorem cache_write_error_is_returned:
  "fst (GetKubeadmToken ex_env ex_pv_conflict (Some 0) ex_world) = Return (ex_token, Some ex_conflict) \<and>
   secrets (snd (GetKubeadmToken ex_env ex_pv_conflict (Some 0) ex_world))
     (''https://10.0.0.1:6443'', ''kube-system'', ''bootstrap-token-abcdef'') = Some ex_secret \<and>
   logs (snd (GetKubeadmToken ex_env ex_pv_conflict (Some 0) ex_world)) =
     [''Could not cache the kubeadm token on cluster object: the object has been modified'']"
  by (simp add: ex_eval bootstrap_secret_name)

text \<open>
  C3, as amended. For a cluster with no cached token, or with an expiry that does not
  parse, or with an expiry that leaves at most \<open>KubeadmTokenLeftTime\<close>: when the control
  plane machines are found, the kube-config is read, \<open>createKubeadmToken\<close> returns a token
  and the provisioner holds a cluster client, \<open>GetKubeadmToken\<close> has called the token
  generator once and the update of the cluster once. The cluster sent is the given one
  with the new token and the expiry \<open>now + KubeadmTokenTtl\<close> in its annotations. The call
  returns the new token, and the error it returns is the answer of that update and nothing
  else: an expiry that does not parse is never returned as an error.
\<close>

theorem miss_mints_once_and_caches_once:
  assumes obj: "deref (clusters w) cluster = Some c"
    and miss: "Annotations (cluster_ObjectMeta c) = None \<or>
           (\<exists>m. Annotations (cluster_ObjectMeta c) = Some m \<and>
              (m (KubeadmToken (constants_pkg e)) = None \<or>
               time_Parse e (index0 m (KubeadmTokenExpiryTime (constants_pkg e))) = None \<or>
               (\<exists>t. time_Parse e (index0 m (KubeadmTokenExpiryTime (constants_pkg e))) = Some t \<and>
                    time_Sub t (clock e (ticks w)) \<le> KubeadmTokenLeftTime (constants_pkg e))))"
    and cp: "lister pv (length (trace w)) c = Inr ms" "ms \<noteq> []"
    and kc: "k8sClient_Secrets_Get pv (Suc (length (trace w))) (Namespace (cluster_ObjectMeta c))
               (KubeConfigSecretName (constants_pkg e) (UID (cluster_ObjectMeta c))) = Inr ksecret"
    and mint: "createKubeadmToken e (index0 (secret_Data ksecret) (KubeConfigSecretData (constants_pkg e)))
                 ((snd (cachedToken e c w))\<lparr>trace := trace w @
                    [GetControlPlaneMachines c,
                     SecretsGet (Namespace (cluster_ObjectMeta c))
                       (KubeConfigSecretName (constants_pkg e) (UID (cluster_ObjectMeta c)))]\<rparr>)
               = (Return (tok, None), w4)"
    and client: "clusterV1alpha1 pv = Some cl"
  shows "length (filter is_GenerateToken
           (new_calls w (snd (GetKubeadmToken e pv cluster w)))) = 1 \<and>
         filter is_ClustersUpdate (new_calls w (snd (GetKubeadmToken e pv cluster w))) =
           [ClustersUpdate (Namespace (cluster_ObjectMeta c))
              (c\<lparr>cluster_ObjectMeta := (cluster_ObjectMeta c)\<lparr>Annotations :=
                 Some ((case Annotations (cluster_ObjectMeta c) of None \<Rightarrow> Map.empty | Some m \<Rightarrow> m)
                   (KubeadmToken (constants_pkg e) \<mapsto> tok,
                    KubeadmTokenExpiryTime (constants_pkg e) \<mapsto>
                      time_Format e (time_Add (clock e (ticks w4))
                        (KubeadmTokenTtl (constants_pkg e)))))\<rparr>\<rparr>)] \<and>
         fst (GetKubeadmToken e pv cluster w) =
           Return (tok,
             Clusters_Update cl (length (trace w4)) (Namespace (cluster_ObjectMeta c))
               (c\<lparr>cluster_ObjectMeta := (cluster_ObjectMeta c)\<lparr>Annotations :=
                  Some ((case Annotations (cluster_ObjectMeta c) of None \<Rightarrow> Map.empty | Some m \<Rightarrow> m)
                    (KubeadmToken (constants_pkg e) \<mapsto> tok,
                     KubeadmTokenExpiryTime (constants_pkg e) \<mapsto>
                       time_Format e (time_Add (clock e (ticks w4))
                         (KubeadmTokenTtl (constants_pkg e)))))\<rparr>\<rparr>))"
proof -
  note calls = GetKubeadmToken_mint_calls [OF obj cachedToken_miss [OF miss] cp kc mint client]
  from calls(2) obtain cs where
    n: "new_calls w (snd (GetKubeadmToken e pv cluster w)) =
           [GetControlPlaneMachines c,
            SecretsGet (Namespace (cluster_ObjectMeta c))
              (KubeConfigSecretName (constants_pkg e) (UID (cluster_ObjectMeta c))),
            GenerateToken] @ cs @
           [ClustersUpdate (Namespace (cluster_ObjectMeta c))
              (cached_cluster e c tok (clock e (ticks w4)))]"
    and cs: "\<forall>c\<in>set cs. is_SecretsCreate c \<or> is_SecretsUpdate c"
    by blast
  show ?thesis
    unfolding n cached_cluster_def [symmetric]
    using calls(1) by (simp add: filter_store_calls [OF cs])
qed

theorem miss_mints_once_and_caches_once_witness:
  "length (filter is_GenerateToken
     (new_calls ex_world_expired (snd (GetKubeadmToken ex_env ex_pv (Some 0) ex_world_expired)))) = 1 \<and>
   length (filter is_ClustersUpdate
     (new_calls ex_world_expired (snd (GetKubeadmToken ex_env ex_pv (Some 0) ex_world_expired)))) = 1 \<and>
   fst (GetKubeadmToken ex_env ex_pv (Some 0) ex_world_expired) = Return (ex_token, None)"
proof -
  let ?w3 = "(snd (cachedToken ex_env ex_cluster_expired ex_world_expired))\<lparr>trace :=
               trace ex_world_expired @
                 [GetControlPlaneMachines ex_cluster_expired,
                  SecretsGet (Namespace (cluster_ObjectMeta ex_cluster_expired))
                    (KubeConfigSecretName (constants_pkg ex_env)
                       (UID (cluster_ObjectMeta ex_cluster_expired)))]\<rparr>"
  let ?k = "index0 (secret_Data ex_kubeconfig_secret) (KubeConfigSecretData (constants_pkg ex_env))"
  have 1: "deref (clusters ex_world_expired) (Some 0) = Some ex_cluster_expired"
    by (simp add: deref_def ex_world_expired_def ex_world_def)
  have 2: "Annotations (cluster_ObjectMeta ex_cluster_expired) = None \<or>
           (\<exists>m. Annotations (cluster_ObjectMeta ex_cluster_expired) = Some m \<and>
              (m (KubeadmToken (constants_pkg ex_env)) = None \<or>
               time_Parse ex_env (index0 m (KubeadmTokenExpiryTime (constants_pkg ex_env))) = None \<or>
               (\<exists>t. time_Parse ex_env (index0 m (KubeadmTokenExpiryTime (constants_pkg ex_env))) = Some t \<and>
                    time_Sub t (clock ex_env (ticks ex_world_expired))
                      \<le> KubeadmTokenLeftTime (constants_pkg ex_env))))"
    by (simp add: ex_defs index0_def time_Sub_def maxDuration_def minDuration_def Let_def)
  have 3: "lister ex_pv (length (trace ex_world_expired)) ex_cluster_expired = Inr [Some 0]"
    by (simp add: ex_pv_def)
  have 4: "[Some 0] \<noteq> ([] :: ptr list)" by simp
  have 5: "k8sClient_Secrets_Get ex_pv (Suc (length (trace ex_world_expired)))
             (Namespace (cluster_ObjectMeta ex_cluster_expired))
             (KubeConfigSecretName (constants_pkg ex_env) (UID (cluster_ObjectMeta ex_cluster_expired)))
           = Inr ex_kubeconfig_secret"
    by (simp add: ex_pv_def)
  have "fst (createKubeadmToken ex_env ?k ?w3) = Return (ex_token, None)"
    by (rule ex_mint [of _ ex_cluster_expired])
       (simp_all add: ex_env_def ex_world_expired_def ex_world_def cachedToken_def
          ex_cluster_expired_def ex_cluster_def ex_constants_def ex_Parse_def index0_def
          bind_def return_def time_Now_def)
  then have 6: "createKubeadmToken ex_env ?k ?w3 =
                  (Return (ex_token, None), snd (createKubeadmToken ex_env ?k ?w3))"
    by (simp add: prod_eq_iff)
  have 7: "clusterV1alpha1 ex_pv = Some ex_client"
    by (simp add: ex_pv_def)
  have 8: "Clusters_Update ex_client k ns c = None" for k ns c
    by (simp add: ex_client_def)
  from miss_mints_once_and_caches_once [OF 1 2 3 4 5 6 7]
  show ?thesis by (simp add: 8)
qed

text \<open>
  C3, as stated, fails. With no cached token, the control plane machines found and the
  kube-config read, a create of the secret that the API server refuses ends the call with
  an error and without an update of the cluster; and a provisioner without a cluster
  client panics where the update would be sent.
\<close>

theorem mint_failure_skips_the_cache_write:
  "Annotations (cluster_ObjectMeta ex_cluster) = None \<and>
   lister ex_pv 0 ex_cluster = Inr [Some 0] \<and>
   k8sClient_Secrets_Get ex_pv 1 ''default'' ''uid-1-kubeconfig'' = Inr ex_kubeconfig_secret \<and>
   fst (GetKubeadmToken ex_env_forbidden ex_pv (Some 0) ex_world) =
     Return ([], Some (errorString ''unable to create bootstrap token secret: secrets is forbidden'')) \<and>
   filter is_ClustersUpdate
     (new_calls ex_world (snd (GetKubeadmToken ex_env_forbidden ex_pv (Some 0) ex_world))) = [] \<and>
   fst (GetKubeadmToken ex_env ex_pv_noclient (Some 0) ex_world) = Panic \<and>
   filter is_ClustersUpdate
     (new_calls ex_world (snd (GetKubeadmToken ex_env ex_pv_noclient (Some 0) ex_world))) = []"
  by (simp add: ex_eval bootstrap_secret_name)

text \<open>
  C10. When \<open>GetKubeadmToken\<close> misses the cache and the token is generated and
  persisted, the string it returns is the whole generated token. Its first
  \<open>BootstrapTokenIDBytes\<close> characters are the identifier field of the record persisted
  in the target cluster, and the characters after the separator are the secret field of
  that record; the same whole string is the token annotation of the cluster sent to the
  API server.
\<close>

theorem token_annotation_holds_the_whole_token:
  assumes obj: "deref (clusters w) cluster = Some c"
    and miss: "fst (cachedToken e c w) = Return None"
    and cp: "lister pv (length (trace w)) c = Inr ms" "ms \<noteq> []"
    and kc: "k8sClient_Secrets_Get pv (Suc (length (trace w))) (Namespace (cluster_ObjectMeta c))
               (KubeConfigSecretName (constants_pkg e) (UID (cluster_ObjectMeta c))) = Inr ksecret"
    and mint: "createKubeadmToken e (index0 (secret_Data ksecret) (KubeConfigSecretData (constants_pkg e)))
                 ((snd (cachedToken e c w))\<lparr>trace := trace w @
                    [GetControlPlaneMachines c,
                     SecretsGet (Namespace (cluster_ObjectMeta c))
                       (KubeConfigSecretName (constants_pkg e) (UID (cluster_ObjectMeta c)))]\<rparr>)
               = (Return (tok, None), w4)"
    and client: "clusterV1alpha1 pv = Some cl"
    and keys: "KubeadmToken (constants_pkg e) \<noteq> KubeadmTokenExpiryTime (constants_pkg e)"
  shows "(\<exists>err. fst (GetKubeadmToken e pv cluster w) = Return (tok, err)) \<and>
         tok = fst (GenerateBootstrapToken e (draws w)) \<and>
         BootstrapTokenIDBytes + 1 \<le> length tok \<and>
         (\<exists>h s. secrets (snd (GetKubeadmToken e pv cluster w))
                  (h, NamespaceSystem, BootstrapTokenSecretName (take BootstrapTokenIDBytes tok)) = Some s \<and>
                secret_Data s BootstrapTokenIDKey = Some (take BootstrapTokenIDBytes tok) \<and>
                secret_Data s BootstrapTokenSecretKey = Some (drop (BootstrapTokenIDBytes + 1) tok)) \<and>
         (\<exists>ns nc m. last (trace (snd (GetKubeadmToken e pv cluster w))) = ClustersUpdate ns nc \<and>
                Annotations (cluster_ObjectMeta nc) = Some m \<and>
                m (KubeadmToken (constants_pkg e)) = Some tok)"
proof -
  let ?w3 = "(snd (cachedToken e c w))\<lparr>trace := trace w @
                    [GetControlPlaneMachines c,
                     SecretsGet (Namespace (cluster_ObjectMeta c))
                       (KubeConfigSecretName (constants_pkg e) (UID (cluster_ObjectMeta c)))]\<rparr>"
  let ?id = "take BootstrapTokenIDBytes tok"
  let ?sec = "drop (BootstrapTokenIDBytes + 1) tok"
  note calls = GetKubeadmToken_mint_calls [OF obj miss cp kc mint client]
  from createKubeadmToken_success [OF mint] obtain rc where
    gen: "GenerateBootstrapToken e (draws ?w3) = (tok, None)"
    and len: "BootstrapTokenIDBytes + 1 \<le> length tok"
    and cu: "createOrUpdateSecret e (AddUserAgent rc ''cluster-api-provider-vsphere'')
               (minted_secret e ?w3) (minting ?w3) = (Return None, w4)"
    by blast
  let ?s = "minted_secret e ?w3"
  have s: "?s = bootstrap_secret ?id ?sec
             (time_Format e (time_Add (time_UTC (clock e (ticks ?w3))) (KubeadmTokenTtl (constants_pkg e))))"
    unfolding minted_secret_def gen by simp
  have name: "Name (secret_ObjectMeta ?s) = BootstrapTokenSecretName ?id"
    unfolding s by (rule bootstrap_secret_name)
  from createOrUpdateSecret_success [OF cu]
  have "secrets w4 (Host (AddUserAgent rc ''cluster-api-provider-vsphere''), NamespaceSystem,
          BootstrapTokenSecretName ?id) = Some ?s"
    by (simp add: name)
  moreover have "secret_Data ?s BootstrapTokenIDKey = Some ?id"
    "secret_Data ?s BootstrapTokenSecretKey = Some ?sec"
    unfolding s by (rule bootstrap_secret_fields)+
  ultimately have stored: "\<exists>h s. secrets (snd (GetKubeadmToken e pv cluster w))
                  (h, NamespaceSystem, BootstrapTokenSecretName ?id) = Some s \<and>
                secret_Data s BootstrapTokenIDKey = Some ?id \<and>
                secret_Data s BootstrapTokenSecretKey = Some ?sec"
    unfolding calls(3) by blast
  let ?nc = "cached_cluster e c tok (clock e (ticks w4))"
  have "last (trace (snd (GetKubeadmToken e pv cluster w))) =
          ClustersUpdate (Namespace (cluster_ObjectMeta c)) ?nc"
    unfolding calls(5) by simp
  moreover have "\<exists>m. Annotations (cluster_ObjectMeta ?nc) = Some m \<and>
                     m (KubeadmToken (constants_pkg e)) = Some tok"
    using keys by (simp add: cached_cluster_def)
  ultimately have ann: "\<exists>ns nc m. last (trace (snd (GetKubeadmToken e pv cluster w))) = ClustersUpdate ns nc \<and>
                Annotations (cluster_ObjectMeta nc) = Some m \<and>
                m (KubeadmToken (constants_pkg e)) = Some tok"
    by blast
  from calls(1) have ret: "\<exists>err. fst (GetKubeadmToken e pv cluster w) = Return (tok, err)"
    by simp
  from ret calls(4) len stored ann show ?thesis by (intro conjI)
qed

theorem token_annotation_holds_the_whole_token_witness:
  "(\<exists>err. fst (GetKubeadmToken ex_env ex_pv (Some 0) ex_world) = Return (ex_token, err)) \<and>
   (\<exists>h s. secrets (snd (GetKubeadmToken ex_env ex_pv (Some 0) ex_world))
            (h, NamespaceSystem, BootstrapTokenSecretName (take BootstrapTokenIDBytes ex_token)) = Some s \<and>
          secret_Data s BootstrapTokenIDKey = Some (take BootstrapTokenIDBytes ex_token) \<and>
          secret_Data s BootstrapTokenSecretKey = Some (drop (BootstrapTokenIDBytes + 1) ex_token)) \<and>
   (\<exists>ns nc m. last (trace (snd (GetKubeadmToken ex_env ex_pv (Some 0) ex_world))) = ClustersUpdate ns nc \<and>
          Annotations (cluster_ObjectMeta nc) = Some m \<and>
          m (KubeadmToken (constants_pkg ex_env)) = Some ex_token)"
proof -
  let ?w3 = "(snd (cachedToken ex_env ex_cluster ex_world))\<lparr>trace :=
               trace ex_world @
                 [GetControlPlaneMachines ex_cluster,
                  SecretsGet (Namespace (cluster_ObjectMeta ex_cluster))
                    (KubeConfigSecretName (constants_pkg ex_env)
                       (UID (cluster_ObjectMeta ex_cluster)))]\<rparr>"
  let ?k = "index0 (secret_Data ex_kubeconfig_secret) (KubeConfigSecretData (constants_pkg ex_env))"
  have 1: "deref (clusters ex_world) (Some 0) = Some ex_cluster"
    by (simp add: deref_def ex_world_def)
  have 2: "fst (cachedToken ex_env ex_cluster ex_world) = Return None"
    by (simp add: cachedToken_def ex_cluster_def return_def)
  have 3: "lister ex_pv (length (trace ex_world)) ex_cluster = Inr [Some 0]"
    by (simp add: ex_pv_def)
  have 4: "[Some 0] \<noteq> ([] :: ptr list)" by simp
  have 5: "k8sClient_Secrets_Get ex_pv (Suc (length (trace ex_world)))
             (Namespace (cluster_ObjectMeta ex_cluster))
             (KubeConfigSecretName (constants_pkg ex_env) (UID (cluster_ObjectMeta ex_cluster)))
           = Inr ex_kubeconfig_secret"
    by (simp add: ex_pv_def)
  have "fst (createKubeadmToken ex_env ?k ?w3) = Return (ex_token, None)"
    by (rule ex_mint [of _ ex_cluster])
       (simp_all add: ex_env_def ex_world_def cachedToken_def ex_cluster_def return_def)
  then have 6: "createKubeadmToken ex_env ?k ?w3 =
                  (Return (ex_token, None), snd (createKubeadmToken ex_env ?k ?w3))"
    by (simp add: prod_eq_iff)
  have 7: "clusterV1alpha1 ex_pv = Some ex_client"
    by (simp add: ex_pv_def)
  have 8: "KubeadmToken (constants_pkg ex_env) \<noteq> KubeadmTokenExpiryTime (constants_pkg ex_env)"
    by (simp add: ex_env_def ex_constants_def)
  from token_annotation_holds_the_whole_token [OF 1 2 3 4 5 6 7 8]
  show ?thesis by (intro conjI) (elim conjE, assumption)+
qed

end
